theory Spec2Isabelle
  imports Complex_Main "HOL-Library.AList" "HOL-Library.Char_ord" "HOL-Library.List_Lexorder"
    "HOL-Library.Multiset"
begin

section \<open>Data model\<close>

text \<open>
  The records follow the types inferred from the schemas of \<^verbatim>\<open>scripts/lib/schema.ts\<close>.
  A JavaScript string is a sequence of UTF-16 code units; the model has HOL strings, that
  is, texts whose code units are single bytes. An optional property is an \<open>option\<close>.
  Field names carry a prefix where two object types share a property name.
\<close>

datatype WidgetManifestAuthor =
    AuthorString string
  | AuthorObject (author_name: string) (author_email: "string option") (author_url: "string option")

record Widget =
  widget_version :: string
  widget_repo :: string
  widget_commit :: string
  widget_path :: "string option"

record WidgetManifest =
  manifest_name :: string
  manifest_version :: string
  manifest_authors :: "WidgetManifestAuthor list"
  manifest_license :: string
  manifest_description :: string
  manifest_homepage :: string

record PublishPlanEntry =
  plan_handle :: string
  plan_id :: string
  plan_widget :: Widget
  plan_manifest :: WidgetManifest

text \<open>An element of \<^verbatim>\<open>registryUpdatePlan\<close>: \<^verbatim>\<open>{ ...it, publishedAt, digest }\<close>.\<close>

record RegistryUpdate = PublishPlanEntry +
  upd_publishedAt :: string
  upd_digest :: string

record RegistryEntryRelease =
  release_version :: string
  release_publishedAt :: string
  release_digest :: string

record RegistryEntry =
  entry_handle :: string
  entry_id :: string
  entry_name :: string
  entry_authors :: "WidgetManifestAuthor list"
  entry_description :: string
  entry_releases :: "RegistryEntryRelease list"

record RegistryIndex =
  index_api :: int
  index_generatedAt :: string
  index_widgets :: "RegistryEntry list"

section \<open>The registry index merge loop\<close>

text \<open>
  \<^verbatim>\<open>registryIndex.widgets.find((e) => e.handle === handle && e.id === id)\<close> is
  \<open>List.find\<close> with \<open>same_key\<close>; the object it returns is the first matching element of the
  array, and the assignments to it change that element in place (\<open>modify_first\<close>).
\<close>

definition same_key :: "string \<Rightarrow> string \<Rightarrow> RegistryEntry \<Rightarrow> bool" where
  "same_key h i e = (entry_handle e = h \<and> entry_id e = i)"

definition releaseData :: "('a RegistryUpdate_scheme) \<Rightarrow> RegistryEntryRelease" where
  "releaseData it =
     \<lparr> release_version = widget_version (plan_widget it),
       release_publishedAt = upd_publishedAt it,
       release_digest = upd_digest it \<rparr>"

definition new_entry :: "('a RegistryUpdate_scheme) \<Rightarrow> RegistryEntry" where
  "new_entry it =
     \<lparr> entry_handle = plan_handle it,
       entry_id = plan_id it,
       entry_name = manifest_name (plan_manifest it),
       entry_authors = manifest_authors (plan_manifest it),
       entry_description = manifest_description (plan_manifest it),
       entry_releases = [releaseData it] \<rparr>"

definition updated_entry :: "('a RegistryUpdate_scheme) \<Rightarrow> RegistryEntry \<Rightarrow> RegistryEntry" where
  "updated_entry it entry =
     entry \<lparr> entry_name := manifest_name (plan_manifest it),
             entry_authors := manifest_authors (plan_manifest it),
             entry_description := manifest_description (plan_manifest it),
             entry_releases := releaseData it # entry_releases entry \<rparr>"

fun modify_first :: "('a \<Rightarrow> bool) \<Rightarrow> ('a \<Rightarrow> 'a) \<Rightarrow> 'a list \<Rightarrow> 'a list" where
  "modify_first p f [] = []"
| "modify_first p f (x # xs) = (if p x then f x # xs else x # modify_first p f xs)"

definition merge_update :: "RegistryEntry list \<Rightarrow> ('a RegistryUpdate_scheme) \<Rightarrow> RegistryEntry list" where
  "merge_update widgets it =
     (case find (same_key (plan_handle it) (plan_id it)) widgets of
        None \<Rightarrow> widgets @ [new_entry it]
      | Some entry \<Rightarrow> modify_first (same_key (plan_handle it) (plan_id it)) (updated_entry it) widgets)"

text \<open>\<^verbatim>\<open>for (const it of registryUpdatePlan) { ... }\<close>\<close>

definition merge_all :: "RegistryEntry list \<Rightarrow> ('a RegistryUpdate_scheme) list \<Rightarrow> RegistryEntry list" where
  "merge_all widgets registryUpdatePlan = foldl merge_update widgets registryUpdatePlan"

section \<open>Sorting the entry list\<close>

text \<open>
  The comparator passed to \<^verbatim>\<open>registryIndex.widgets.sort\<close>. \<^verbatim>\<open>String.prototype.localeCompare\<close>
  is a built-in whose order depends on the host's collation, so it is a parameter.
\<close>

definition compare_entries :: "(string \<Rightarrow> string \<Rightarrow> int) \<Rightarrow> RegistryEntry \<Rightarrow> RegistryEntry \<Rightarrow> int" where
  "compare_entries localeCompare a b =
     (if entry_handle a \<noteq> entry_handle b
      then localeCompare (entry_handle a) (entry_handle b)
      else localeCompare (entry_id a) (entry_id b))"

text \<open>
  \<^verbatim>\<open>Array.prototype.sort(comparefn)\<close>: ECMAScript requires the sort to be stable and, for a
  consistent comparator, the result to be ordered by it. The model is the stable insertion
  sort, which is the result every conforming engine returns for a consistent comparator.
\<close>

fun insert_by :: "('a \<Rightarrow> 'a \<Rightarrow> int) \<Rightarrow> 'a \<Rightarrow> 'a list \<Rightarrow> 'a list" where
  "insert_by cmp x [] = [x]"
| "insert_by cmp x (y # ys) = (if cmp x y \<le> 0 then x # y # ys else y # insert_by cmp x ys)"

definition array_sort :: "('a \<Rightarrow> 'a \<Rightarrow> int) \<Rightarrow> 'a list \<Rightarrow> 'a list" where
  "array_sort cmp xs = foldr (insert_by cmp) xs []"

section \<open>Errors, JSON values and the platform\<close>

datatype error =
    MissingEnv string
  | ENOENT string
  | SyntaxError
  | ZodError
  | ToolError string

text \<open>
  A value produced by \<^verbatim>\<open>JSON.parse\<close> (or \<^verbatim>\<open>yaml.parse\<close>). An object is the list of its
  properties in insertion order; a property is read with \<open>map_of\<close>.
\<close>

datatype json =
    JNull
  | JBool bool
  | JNum rat
  | JStr string
  | JArr "json list"
  | JObj "(string \<times> json) list"

text \<open>
  What the scripts take from their host and from libraries that are not part of the
  repository: the environment, the clock, Node's \<^verbatim>\<open>path\<close> module, \<^verbatim>\<open>JSON\<close>, the \<^verbatim>\<open>yaml\<close>
  package, the string formats of \<^verbatim>\<open>zod\<close> that rest on the host (\<^verbatim>\<open>z.url()\<close> returns the
  accepted value, which can differ from its input), \<^verbatim>\<open>localeCompare\<close>, and the helpers of
  \<^verbatim>\<open>lib/git.ts\<close> and \<^verbatim>\<open>lib/process.ts\<close>, which are not among the sources: they are taken as
  they are called, a failure being an error value. \<open>now k\<close> is the result of the \<open>k\<close>-th evaluation of
  \<^verbatim>\<open>new Date().toISOString()\<close> during a run, counted from \<open>0\<close>. The external commands get the
  number of the loop iteration that calls them, since their outcome may change over time.
\<close>

record platform =
  env :: "string \<rightharpoonup> string"
  now :: "nat \<Rightarrow> string"
  path_join :: "string \<Rightarrow> string \<Rightarrow> string"
  path_resolve :: "string \<Rightarrow> string"
  JSON_parse :: "string \<Rightarrow> json option"
  JSON_stringify :: "json \<Rightarrow> string"
  yaml_parse :: "string \<Rightarrow> json option"
  zod_url :: "string \<Rightarrow> string option"
  zod_email :: "string \<Rightarrow> bool"
  zod_iso_datetime :: "string \<Rightarrow> bool"
  zod_base64 :: "string \<Rightarrow> bool"
  localeCompare :: "string \<Rightarrow> string \<Rightarrow> int"
  fileExistsAtCommit :: "string \<Rightarrow> string \<Rightarrow> error + bool"
  showFileAtCommit :: "string \<Rightarrow> string \<Rightarrow> error + string"
  checkoutRepoAtCommit :: "nat \<Rightarrow> string \<Rightarrow> string \<Rightarrow> string \<Rightarrow> string option \<Rightarrow> error option"
  exec :: "nat \<Rightarrow> string \<Rightarrow> string list \<Rightarrow> string \<Rightarrow> error + string"

definition andThen :: "error + 'a \<Rightarrow> ('a \<Rightarrow> error + 'b) \<Rightarrow> error + 'b" where
  "andThen r f = (case r of Inl e \<Rightarrow> Inl e | Inr v \<Rightarrow> f v)"

fun parse_all :: "('a \<Rightarrow> error + 'b) \<Rightarrow> 'a list \<Rightarrow> error + 'b list" where
  "parse_all p [] = Inr []"
| "parse_all p (x # xs) = andThen (p x) (\<lambda>y. andThen (parse_all p xs) (\<lambda>ys. Inr (y # ys)))"

section \<open>Regular expressions\<close>

text \<open>
  The two regular expressions of \<^verbatim>\<open>schema.ts\<close> use literals, character classes made of
  ranges, grouping, alternation, \<^verbatim>\<open>*\<close>, \<^verbatim>\<open>+\<close>, \<^verbatim>\<open>?\<close> and the anchors \<^verbatim>\<open>^\<close> and \<^verbatim>\<open>$\<close> around the whole
  expression (no flags). \<open>regex_test r s\<close> is \<^verbatim>\<open>/^r$/.test(s)\<close>, computed with derivatives.
  A class is the list of its ranges, compared by character code; \<^verbatim>\<open>\d\<close> is \<^verbatim>\<open>[0-9]\<close>.
\<close>

datatype rexp =
    Zero
  | One
  | Lit char
  | Class "(char \<times> char) list"
  | Seq rexp rexp
  | Alt rexp rexp
  | Star rexp

definition Plus :: "rexp \<Rightarrow> rexp" where "Plus r = Seq r (Star r)"
definition Opt :: "rexp \<Rightarrow> rexp" where "Opt r = Alt r One"

definition in_class :: "(char \<times> char) list \<Rightarrow> char \<Rightarrow> bool" where
  "in_class rs c = list_ex (\<lambda>(lo, hi). of_char lo \<le> (of_char c :: nat) \<and> (of_char c :: nat) \<le> of_char hi) rs"

fun nullable :: "rexp \<Rightarrow> bool" where
  "nullable Zero = False"
| "nullable One = True"
| "nullable (Lit c) = False"
| "nullable (Class rs) = False"
| "nullable (Seq r s) = (nullable r \<and> nullable s)"
| "nullable (Alt r s) = (nullable r \<or> nullable s)"
| "nullable (Star r) = True"

fun deriv :: "char \<Rightarrow> rexp \<Rightarrow> rexp" where
  "deriv c Zero = Zero"
| "deriv c One = Zero"
| "deriv c (Lit d) = (if c = d then One else Zero)"
| "deriv c (Class rs) = (if in_class rs c then One else Zero)"
| "deriv c (Seq r s) = (if nullable r then Alt (Seq (deriv c r) s) (deriv c s) else Seq (deriv c r) s)"
| "deriv c (Alt r s) = Alt (deriv c r) (deriv c s)"
| "deriv c (Star r) = Seq (deriv c r) (Star r)"

definition regex_test :: "rexp \<Rightarrow> string \<Rightarrow> bool" where
  "regex_test r s = nullable (foldl (\<lambda>r c. deriv c r) r s)"

text \<open>
  \<^verbatim>\<open>SEMVER_REGEX\<close>, in the order of the source. \<open>rx_numeric\<close> is \<^verbatim>\<open>(0|[1-9]\d*)\<close>,
  \<open>rx_alphanumeric\<close> is \<^verbatim>\<open>\d*[a-zA-Z-][0-9a-zA-Z-]*\<close>, \<open>rx_build_id\<close> is \<^verbatim>\<open>[0-9a-zA-Z-]+\<close> and
  \<open>rx_dotted r\<close> is \<^verbatim>\<open>r(?:\.r)*\<close>.
\<close>

definition rx_digit :: rexp where
  "rx_digit = Class [(CHR ''0'', CHR ''9'')]"

definition rx_numeric :: rexp where
  "rx_numeric = Alt (Lit CHR ''0'') (Seq (Class [(CHR ''1'', CHR ''9'')]) (Star rx_digit))"

definition rx_alphanumeric :: rexp where
  "rx_alphanumeric =
     Seq (Star rx_digit)
    (Seq (Class [(CHR ''a'', CHR ''z''), (CHR ''A'', CHR ''Z''), (CHR ''-'', CHR ''-'')])
         (Star (Class [(CHR ''0'', CHR ''9''), (CHR ''a'', CHR ''z''), (CHR ''A'', CHR ''Z''), (CHR ''-'', CHR ''-'')])))"

definition rx_prerelease_id :: rexp where
  "rx_prerelease_id =
     Alt (Lit CHR ''0'')
    (Alt (Seq (Class [(CHR ''1'', CHR ''9'')]) (Star rx_digit)) rx_alphanumeric)"

definition rx_build_id :: rexp where
  "rx_build_id = Plus (Class [(CHR ''0'', CHR ''9''), (CHR ''a'', CHR ''z''), (CHR ''A'', CHR ''Z''), (CHR ''-'', CHR ''-'')])"

definition rx_dotted :: "rexp \<Rightarrow> rexp" where
  "rx_dotted r = Seq r (Star (Seq (Lit CHR ''.'') r))"

definition SEMVER_REGEX :: rexp where
  "SEMVER_REGEX =
     Seq rx_numeric (Seq (Lit CHR ''.'') (Seq rx_numeric (Seq (Lit CHR ''.'') (Seq rx_numeric
    (Seq (Opt (Seq (Lit CHR ''-'') (rx_dotted rx_prerelease_id)))
         (Opt (Seq (Lit CHR ''+'') (rx_dotted rx_build_id))))))))"

text \<open>\<^verbatim>\<open>SAFE_ID_REGEX = /^[a-zA-Z0-9-_]+$/\<close>\<close>

definition SAFE_ID_REGEX :: rexp where
  "SAFE_ID_REGEX =
     Plus (Class [(CHR ''a'', CHR ''z''), (CHR ''A'', CHR ''Z''), (CHR ''0'', CHR ''9''),
                  (CHR ''-'', CHR ''-''), (CHR ''_'', CHR ''_'')])"

section \<open>Schemas\<close>

text \<open>
  A schema is a function from a JSON value to the parsed value or \<open>ZodError\<close>. A property
  that is missing from an object reads as \<^verbatim>\<open>undefined\<close>: only an optional schema accepts it.
\<close>

definition z_string :: "json \<Rightarrow> error + string" where
  "z_string j = (case j of JStr s \<Rightarrow> Inr s | _ \<Rightarrow> Inl ZodError)"

definition z_string_regex :: "rexp \<Rightarrow> json \<Rightarrow> error + string" where
  "z_string_regex r j =
     (case j of JStr s \<Rightarrow> if regex_test r s then Inr s else Inl ZodError | _ \<Rightarrow> Inl ZodError)"

definition z_string_max :: "nat \<Rightarrow> json \<Rightarrow> error + string" where
  "z_string_max n j =
     (case j of JStr s \<Rightarrow> if length s \<le> n then Inr s else Inl ZodError | _ \<Rightarrow> Inl ZodError)"

definition z_string_format :: "(string \<Rightarrow> bool) \<Rightarrow> json \<Rightarrow> error + string" where
  "z_string_format ok j =
     (case j of JStr s \<Rightarrow> if ok s then Inr s else Inl ZodError | _ \<Rightarrow> Inl ZodError)"

definition z_url :: "'a platform_scheme \<Rightarrow> json \<Rightarrow> error + string" where
  "z_url P j =
     (case j of
        JStr s \<Rightarrow> (case zod_url P s of Some u \<Rightarrow> Inr u | None \<Rightarrow> Inl ZodError)
      | _ \<Rightarrow> Inl ZodError)"

text \<open>\<^verbatim>\<open>z.int()\<close>: a number that is an integer in the safe range.\<close>

definition z_int :: "json \<Rightarrow> error + int" where
  "z_int j =
     (case j of
        JNum q \<Rightarrow>
          (case quotient_of q of
             (n, d) \<Rightarrow> if d = 1 \<and> \<bar>n\<bar> \<le> 9007199254740991 then Inr n else Inl ZodError)
      | _ \<Rightarrow> Inl ZodError)"

text \<open>
  \<^verbatim>\<open>z.hash("sha1")\<close> and \<^verbatim>\<open>z.hash("sha256")\<close> with the default hexadecimal encoding: 40 and 64
  hexadecimal characters.
\<close>

definition is_hex :: "char \<Rightarrow> bool" where
  "is_hex c = (c \<in> set ''0123456789abcdefABCDEF'')"

definition z_hash :: "nat \<Rightarrow> json \<Rightarrow> error + string" where
  "z_hash n j =
     (case j of
        JStr s \<Rightarrow> if length s = n \<and> list_all is_hex s then Inr s else Inl ZodError
      | _ \<Rightarrow> Inl ZodError)"

definition z_union :: "(json \<Rightarrow> error + 'a) \<Rightarrow> (json \<Rightarrow> error + 'a) \<Rightarrow> json \<Rightarrow> error + 'a" where
  "z_union p q j = (case p j of Inr v \<Rightarrow> Inr v | Inl e \<Rightarrow> q j)"

definition z_array :: "(json \<Rightarrow> error + 'a) \<Rightarrow> json \<Rightarrow> error + 'a list" where
  "z_array p j = (case j of JArr xs \<Rightarrow> parse_all p xs | _ \<Rightarrow> Inl ZodError)"

definition z_array_min1 :: "(json \<Rightarrow> error + 'a) \<Rightarrow> json \<Rightarrow> error + 'a list" where
  "z_array_min1 p j =
     andThen (z_array p j) (\<lambda>xs. if 1 \<le> length xs then Inr xs else Inl ZodError)"

definition z_required :: "(json \<Rightarrow> error + 'a) \<Rightarrow> json option \<Rightarrow> error + 'a" where
  "z_required p v = (case v of None \<Rightarrow> Inl ZodError | Some j \<Rightarrow> p j)"

definition z_optional :: "(json \<Rightarrow> error + 'a) \<Rightarrow> json option \<Rightarrow> error + 'a option" where
  "z_optional p v = (case v of None \<Rightarrow> Inr None | Some j \<Rightarrow> andThen (p j) (\<lambda>x. Inr (Some x)))"

record Publisher =
  publisher_organization :: "int option"
  publisher_user :: "int option"
  publisher_extraMaintainers :: "int list option"

definition PublisherSchema :: "json \<Rightarrow> error + Publisher" where
  "PublisherSchema j =
     (case j of
        JObj ps \<Rightarrow>
          andThen (z_optional z_int (map_of ps ''organization'')) (\<lambda>organization.
          andThen (z_optional z_int (map_of ps ''user'')) (\<lambda>user.
          andThen (z_optional (z_array z_int) (map_of ps ''extraMaintainers'')) (\<lambda>extraMaintainers.
          if (organization \<noteq> None) \<noteq> (user \<noteq> None)
          then Inr \<lparr> publisher_organization = organization, publisher_user = user,
                     publisher_extraMaintainers = extraMaintainers \<rparr>
          else Inl ZodError)))
      | _ \<Rightarrow> Inl ZodError)"

definition WidgetSchema :: "'a platform_scheme \<Rightarrow> json \<Rightarrow> error + Widget" where
  "WidgetSchema P j =
     (case j of
        JObj ps \<Rightarrow>
          andThen (z_required (z_string_regex SEMVER_REGEX) (map_of ps ''version'')) (\<lambda>version.
          andThen (z_required (z_url P) (map_of ps ''repo'')) (\<lambda>repo.
          andThen (z_required (z_union (z_hash 40) (z_hash 64)) (map_of ps ''commit'')) (\<lambda>commit.
          andThen (z_optional z_string (map_of ps ''path'')) (\<lambda>path.
          Inr \<lparr> widget_version = version, widget_repo = repo, widget_commit = commit,
                widget_path = path \<rparr>))))
      | _ \<Rightarrow> Inl ZodError)"

text \<open>\<^verbatim>\<open>z.record(z.string().regex(SAFE_ID_REGEX), WidgetSchema)\<close>\<close>

definition WidgetsSchema :: "'a platform_scheme \<Rightarrow> json \<Rightarrow> error + (string \<times> Widget) list" where
  "WidgetsSchema P j =
     (case j of
        JObj ps \<Rightarrow>
          parse_all (\<lambda>(k, v).
            andThen (z_string_regex SAFE_ID_REGEX (JStr k)) (\<lambda>key.
            andThen (WidgetSchema P v) (\<lambda>w. Inr (key, w)))) ps
      | _ \<Rightarrow> Inl ZodError)"

definition WidgetManifestAuthorSchema :: "'a platform_scheme \<Rightarrow> json \<Rightarrow> error + WidgetManifestAuthor" where
  "WidgetManifestAuthorSchema P =
     z_union
       (\<lambda>j. andThen (z_string j) (\<lambda>s. Inr (AuthorString s)))
       (\<lambda>j. case j of
          JObj ps \<Rightarrow>
            andThen (z_required z_string (map_of ps ''name'')) (\<lambda>name.
            andThen (z_optional (z_string_format (zod_email P)) (map_of ps ''email'')) (\<lambda>email.
            andThen (z_optional (z_url P) (map_of ps ''url'')) (\<lambda>url.
            Inr (AuthorObject name email url))))
        | _ \<Rightarrow> Inl ZodError)"

definition WidgetManifestSchema :: "'a platform_scheme \<Rightarrow> json \<Rightarrow> error + WidgetManifest" where
  "WidgetManifestSchema P j =
     (case j of
        JObj ps \<Rightarrow>
          andThen (z_required (z_string_max 80) (map_of ps ''name'')) (\<lambda>name.
          andThen (z_required (z_string_regex SEMVER_REGEX) (map_of ps ''version'')) (\<lambda>version.
          andThen (z_required (z_array_min1 (WidgetManifestAuthorSchema P)) (map_of ps ''authors'')) (\<lambda>authors.
          andThen (z_required z_string (map_of ps ''license'')) (\<lambda>license.
          andThen (z_required (z_string_max 160) (map_of ps ''description'')) (\<lambda>description.
          andThen (z_required (z_url P) (map_of ps ''homepage'')) (\<lambda>homepage.
          Inr \<lparr> manifest_name = name, manifest_version = version, manifest_authors = authors,
                manifest_license = license, manifest_description = description,
                manifest_homepage = homepage \<rparr>))))))
      | _ \<Rightarrow> Inl ZodError)"

definition PublishPlanEntrySchema :: "'a platform_scheme \<Rightarrow> json \<Rightarrow> error + PublishPlanEntry" where
  "PublishPlanEntrySchema P j =
     (case j of
        JObj ps \<Rightarrow>
          andThen (z_required z_string (map_of ps ''handle'')) (\<lambda>handle.
          andThen (z_required z_string (map_of ps ''id'')) (\<lambda>ident.
          andThen (z_required (WidgetSchema P) (map_of ps ''widget'')) (\<lambda>widget.
          andThen (z_required (WidgetManifestSchema P) (map_of ps ''manifest'')) (\<lambda>manifest.
          Inr \<lparr> plan_handle = handle, plan_id = ident, plan_widget = widget,
                plan_manifest = manifest \<rparr>))))
      | _ \<Rightarrow> Inl ZodError)"

definition PublishPlanSchema :: "'a platform_scheme \<Rightarrow> json \<Rightarrow> error + PublishPlanEntry list" where
  "PublishPlanSchema P = z_array (PublishPlanEntrySchema P)"

record OrasPushOutput =
  oras_mediaType :: string
  oras_digest :: string
  oras_size :: int
  oras_urls :: "string list option"
  oras_annotations :: "(string \<times> string) list option"
  oras_data :: "string option"
  oras_platform :: "unit option"
  oras_artifactType :: "string option"
  oras_reference :: string
  oras_referenceAsTags :: "string list"

text \<open>
  \<^verbatim>\<open>z.record(z.string(), z.string())\<close> for the annotations; \<^verbatim>\<open>z.object()\<close> for the platform,
  which accepts any object and keeps none of its properties.
\<close>

definition z_string_record :: "json \<Rightarrow> error + (string \<times> string) list" where
  "z_string_record j =
     (case j of
        JObj ps \<Rightarrow> parse_all (\<lambda>(k, v). andThen (z_string v) (\<lambda>s. Inr (k, s))) ps
      | _ \<Rightarrow> Inl ZodError)"

definition z_empty_object :: "json \<Rightarrow> error + unit" where
  "z_empty_object j = (case j of JObj ps \<Rightarrow> Inr () | _ \<Rightarrow> Inl ZodError)"

definition OrasPushOutputSchema :: "'a platform_scheme \<Rightarrow> json \<Rightarrow> error + OrasPushOutput" where
  "OrasPushOutputSchema P j =
     (case j of
        JObj ps \<Rightarrow>
          andThen (z_required z_string (map_of ps ''mediaType'')) (\<lambda>mediaType.
          andThen (z_required z_string (map_of ps ''digest'')) (\<lambda>digest.
          andThen (z_required z_int (map_of ps ''size'')) (\<lambda>size.
          andThen (z_optional (z_array z_string) (map_of ps ''urls'')) (\<lambda>urls.
          andThen (z_optional z_string_record (map_of ps ''annotations'')) (\<lambda>annotations.
          andThen (z_optional (z_string_format (zod_base64 P)) (map_of ps ''data'')) (\<lambda>data.
          andThen (z_optional z_empty_object (map_of ps ''platform'')) (\<lambda>platform.
          andThen (z_optional z_string (map_of ps ''artifactType'')) (\<lambda>artifactType.
          andThen (z_required z_string (map_of ps ''reference'')) (\<lambda>reference.
          andThen (z_required (z_array z_string) (map_of ps ''referenceAsTags'')) (\<lambda>referenceAsTags.
          Inr \<lparr> oras_mediaType = mediaType, oras_digest = digest, oras_size = size,
                oras_urls = urls, oras_annotations = annotations, oras_data = data,
                oras_platform = platform, oras_artifactType = artifactType,
                oras_reference = reference, oras_referenceAsTags = referenceAsTags \<rparr>))))))))))
      | _ \<Rightarrow> Inl ZodError)"

definition RegistryEntryReleaseSchema :: "'a platform_scheme \<Rightarrow> json \<Rightarrow> error + RegistryEntryRelease" where
  "RegistryEntryReleaseSchema P j =
     (case j of
        JObj ps \<Rightarrow>
          andThen (z_required z_string (map_of ps ''version'')) (\<lambda>version.
          andThen (z_required (z_string_format (zod_iso_datetime P)) (map_of ps ''publishedAt'')) (\<lambda>publishedAt.
          andThen (z_required z_string (map_of ps ''digest'')) (\<lambda>digest.
          Inr \<lparr> release_version = version, release_publishedAt = publishedAt,
                release_digest = digest \<rparr>)))
      | _ \<Rightarrow> Inl ZodError)"

definition RegistryEntrySchema :: "'a platform_scheme \<Rightarrow> json \<Rightarrow> error + RegistryEntry" where
  "RegistryEntrySchema P j =
     (case j of
        JObj ps \<Rightarrow>
          andThen (z_required z_string (map_of ps ''handle'')) (\<lambda>handle.
          andThen (z_required z_string (map_of ps ''id'')) (\<lambda>ident.
          andThen (z_required z_string (map_of ps ''name'')) (\<lambda>name.
          andThen (z_required (z_array_min1 (WidgetManifestAuthorSchema P)) (map_of ps ''authors'')) (\<lambda>authors.
          andThen (z_required z_string (map_of ps ''description'')) (\<lambda>description.
          andThen (z_required (z_array_min1 (RegistryEntryReleaseSchema P)) (map_of ps ''releases'')) (\<lambda>releases.
          Inr \<lparr> entry_handle = handle, entry_id = ident, entry_name = name,
                entry_authors = authors, entry_description = description,
                entry_releases = releases \<rparr>))))))
      | _ \<Rightarrow> Inl ZodError)"

definition RegistryIndexSchema :: "'a platform_scheme \<Rightarrow> json \<Rightarrow> error + RegistryIndex" where
  "RegistryIndexSchema P j =
     (case j of
        JObj ps \<Rightarrow>
          andThen (z_required z_int (map_of ps ''api'')) (\<lambda>api.
          andThen (z_required (z_string_format (zod_iso_datetime P)) (map_of ps ''generatedAt'')) (\<lambda>generatedAt.
          andThen (z_required (z_array (RegistryEntrySchema P)) (map_of ps ''widgets'')) (\<lambda>widgets.
          Inr \<lparr> index_api = api, index_generatedAt = generatedAt, index_widgets = widgets \<rparr>)))
      | _ \<Rightarrow> Inl ZodError)"

section \<open>Values as JavaScript objects\<close>

text \<open>
  The object that a typed value is at run time, as \<^verbatim>\<open>JSON.stringify\<close> sees it: the properties
  in the order in which the schema or the object literal creates them, and no property for
  an optional one that is \<^verbatim>\<open>undefined\<close>.
\<close>

definition optional_prop :: "string \<Rightarrow> string option \<Rightarrow> (string \<times> json) list" where
  "optional_prop k v = (case v of None \<Rightarrow> [] | Some s \<Rightarrow> [(k, JStr s)])"

fun author_to_json :: "WidgetManifestAuthor \<Rightarrow> json" where
  "author_to_json (AuthorString s) = JStr s"
| "author_to_json (AuthorObject name email url) =
     JObj ([(''name'', JStr name)] @ optional_prop ''email'' email @ optional_prop ''url'' url)"

definition authors_to_json :: "WidgetManifestAuthor list \<Rightarrow> json" where
  "authors_to_json authors = JArr (map author_to_json authors)"

definition release_to_json :: "RegistryEntryRelease \<Rightarrow> json" where
  "release_to_json r =
     JObj [(''version'', JStr (release_version r)),
           (''publishedAt'', JStr (release_publishedAt r)),
           (''digest'', JStr (release_digest r))]"

definition entry_to_json :: "RegistryEntry \<Rightarrow> json" where
  "entry_to_json e =
     JObj [(''handle'', JStr (entry_handle e)),
           (''id'', JStr (entry_id e)),
           (''name'', JStr (entry_name e)),
           (''authors'', authors_to_json (entry_authors e)),
           (''description'', JStr (entry_description e)),
           (''releases'', JArr (map release_to_json (entry_releases e)))]"

definition index_to_json :: "RegistryIndex \<Rightarrow> json" where
  "index_to_json index =
     JObj [(''api'', JNum (of_int (index_api index))),
           (''generatedAt'', JStr (index_generatedAt index)),
           (''widgets'', JArr (map entry_to_json (index_widgets index)))]"

section \<open>Reading and writing files\<close>

text \<open>
  The file system is a map from paths to contents. \<^verbatim>\<open>fs.readFile\<close> of a path with no file
  rejects with \<open>ENOENT\<close>; directories and other I/O failures are not modelled, so
  \<^verbatim>\<open>fs.mkdir(dir, { recursive: true })\<close> changes nothing and \<^verbatim>\<open>fs.writeFile\<close> replaces the whole
  file.
\<close>

type_synonym files = "string \<rightharpoonup> string"

definition readFile :: "files \<Rightarrow> string \<Rightarrow> error + string" where
  "readFile fs file = (case fs file of None \<Rightarrow> Inl (ENOENT file) | Some content \<Rightarrow> Inr content)"

definition json_parse :: "'a platform_scheme \<Rightarrow> string \<Rightarrow> error + json" where
  "json_parse P text = (case JSON_parse P text of None \<Rightarrow> Inl SyntaxError | Some data \<Rightarrow> Inr data)"

definition parsePublisher :: "'a platform_scheme \<Rightarrow> string \<Rightarrow> string \<Rightarrow> error + Publisher option" where
  "parsePublisher P entry commit =
     (let entryFile = path_join P ''publishers'' (entry @ ''.yaml'') in
      andThen (fileExistsAtCommit P entryFile commit) (\<lambda>exists.
      if \<not> exists then Inr None
      else
        andThen (showFileAtCommit P entryFile commit) (\<lambda>content.
        andThen (case yaml_parse P content of None \<Rightarrow> Inl SyntaxError | Some data \<Rightarrow> Inr data) (\<lambda>data.
        andThen (PublisherSchema data) (\<lambda>publisher. Inr (Some publisher))))))"

definition parseWidgets :: "'a platform_scheme \<Rightarrow> string \<Rightarrow> string \<Rightarrow> error + (string \<times> Widget) list option" where
  "parseWidgets P entry commit =
     (let entryFile = path_join P ''widgets'' (entry @ ''.yaml'') in
      andThen (fileExistsAtCommit P entryFile commit) (\<lambda>exists.
      if \<not> exists then Inr None
      else
        andThen (showFileAtCommit P entryFile commit) (\<lambda>content.
        andThen (case yaml_parse P content of None \<Rightarrow> Inl SyntaxError | Some data \<Rightarrow> Inr data) (\<lambda>data.
        andThen (WidgetsSchema P data) (\<lambda>widgets. Inr (Some widgets))))))"

definition parseWidgetManifest :: "'a platform_scheme \<Rightarrow> files \<Rightarrow> string \<Rightarrow> error + WidgetManifest" where
  "parseWidgetManifest P fs dir =
     andThen (readFile fs (path_join P dir ''deskulpt.widget.json'')) (\<lambda>content.
     andThen (json_parse P content) (\<lambda>data.
     WidgetManifestSchema P data))"

text \<open>
  \<^verbatim>\<open>content.split(/\r?\n/)\<close> and \<^verbatim>\<open>line.trim()\<close>; the white space and line terminators of
  ECMAScript that are single-byte characters.
\<close>

fun split_lines :: "string \<Rightarrow> string list" where
  "split_lines [] = [[]]"
| "split_lines [c] = (if c = CHR 0x0A then [[], []] else [[c]])"
| "split_lines (c # d # cs) =
     (if c = CHR 0x0A then [] # split_lines (d # cs)
      else if c = CHR 0x0D \<and> d = CHR 0x0A then [] # split_lines cs
      else (case split_lines (d # cs) of [] \<Rightarrow> [[c]] | l # ls \<Rightarrow> (c # l) # ls))"

definition is_space :: "char \<Rightarrow> bool" where
  "is_space c = (c \<in> set [CHR 0x09, CHR 0x0A, CHR 0x0B, CHR 0x0C, CHR 0x0D, CHR 0x20, CHR 0xA0])"

definition trim :: "string \<Rightarrow> string" where
  "trim s = rev (dropWhile is_space (rev (dropWhile is_space s)))"

definition parsePublishPlan :: "'a platform_scheme \<Rightarrow> files \<Rightarrow> string \<Rightarrow> error + PublishPlanEntry list" where
  "parsePublishPlan P fs file =
     andThen (readFile fs file) (\<lambda>content.
     andThen (parse_all (json_parse P) (filter (\<lambda>line. line \<noteq> []) (map trim (split_lines content)))) (\<lambda>data.
     PublishPlanSchema P (JArr data)))"

definition parseOrasPushOutput :: "'a platform_scheme \<Rightarrow> string \<Rightarrow> error + OrasPushOutput" where
  "parseOrasPushOutput P output = andThen (json_parse P output) (OrasPushOutputSchema P)"

definition parseRegistryIndex :: "'a platform_scheme \<Rightarrow> files \<Rightarrow> string \<Rightarrow> error + RegistryIndex" where
  "parseRegistryIndex P fs dir =
     andThen (readFile fs (path_join P dir ''index.json'')) (\<lambda>content.
     andThen (json_parse P content) (\<lambda>data.
     RegistryIndexSchema P data))"

definition writeRegistryIndex :: "'a platform_scheme \<Rightarrow> files \<Rightarrow> string \<Rightarrow> RegistryIndex \<Rightarrow> files" where
  "writeRegistryIndex P fs dir index =
     fs(path_join P dir ''index.json'' \<mapsto> JSON_stringify P (index_to_json index))"

section \<open>The artifact pusher\<close>

text \<open>
  \<^verbatim>\<open>standardAnnotations\<close> in the order of the object literal, which is the order of
  \<^verbatim>\<open>Object.entries\<close>; \<open>None\<close> is \<^verbatim>\<open>undefined\<close>.
\<close>

definition standardAnnotations ::
  "'a platform_scheme \<Rightarrow> Widget \<Rightarrow> WidgetManifest \<Rightarrow> (string \<times> string option) list" where
  "standardAnnotations P widget manifest =
     [(''created'', None),
      (''authors'', Some (JSON_stringify P (authors_to_json (manifest_authors manifest)))),
      (''url'', Some (manifest_homepage manifest)),
      (''source'', Some (widget_repo widget @ ''@'' @ widget_commit widget)),
      (''version'', Some (widget_version widget)),
      (''revision'', Some (widget_commit widget)),
      (''vendor'', Some ''Deskulpt''),
      (''licenses'', Some (manifest_license manifest)),
      (''title'', Some (manifest_name manifest)),
      (''description'', Some (manifest_description manifest))]"

definition annotation_args :: "(string \<times> string option) list \<Rightarrow> string list" where
  "annotation_args annotations =
     concat (map (\<lambda>(key, value).
       case value of
         None \<Rightarrow> []
       | Some v \<Rightarrow> [''--annotation'', ''org.opencontainers.image.'' @ key @ ''='' @ v]) annotations)"

definition push_args ::
  "'a platform_scheme \<Rightarrow> string \<Rightarrow> Widget \<Rightarrow> WidgetManifest \<Rightarrow> bool \<Rightarrow> string list" where
  "push_args P dst widget manifest dryRun =
     [''push'', ''--artifact-type'', ''application/vnd.deskulpt.widget.v1'']
     @ (if dryRun then [''--oci-layout''] else [])
     @ annotation_args (standardAnnotations P widget manifest)
     @ [dst @ '':v'' @ manifest_version manifest, ''./'', ''--no-tty'', ''--format'', ''json'']"

definition ORAS_CLI :: "'a platform_scheme \<Rightarrow> string" where
  "ORAS_CLI P = (case env P ''ORAS_CLI'' of None \<Rightarrow> ''oras'' | Some cli \<Rightarrow> cli)"

definition push ::
  "'a platform_scheme \<Rightarrow> nat \<Rightarrow> string \<Rightarrow> string \<Rightarrow> Widget \<Rightarrow> WidgetManifest \<Rightarrow> bool \<Rightarrow>
     error + OrasPushOutput" where
  "push P k src dst widget manifest dryRun =
     andThen (exec P k (ORAS_CLI P) (push_args P dst widget manifest dryRun) src) (\<lambda>stdout.
     parseOrasPushOutput P stdout)"

section \<open>The publish script\<close>

text \<open>\<^verbatim>\<open>pushResult.annotations?.["org.opencontainers.image.created"]\<close>\<close>

definition createdAt :: "OrasPushOutput \<Rightarrow> string option" where
  "createdAt pushResult =
     (case oras_annotations pushResult of
        None \<Rightarrow> None
      | Some annotations \<Rightarrow> map_of annotations ''org.opencontainers.image.created'')"

definition select_publishedAt :: "string \<Rightarrow> OrasPushOutput \<Rightarrow> string" where
  "select_publishedAt current pushResult =
     (case createdAt pushResult of None \<Rightarrow> current | Some created \<Rightarrow> created)"

definition registry_update :: "PublishPlanEntry \<Rightarrow> string \<Rightarrow> string \<Rightarrow> RegistryUpdate" where
  "registry_update it publishedAt digest =
     PublishPlanEntry.extend it \<lparr> upd_publishedAt = publishedAt, upd_digest = digest \<rparr>"

text \<open>
  The body of \<^verbatim>\<open>for (const it of publishPlan)\<close> for the iteration \<open>k\<close>: check out, push, read
  the clock, choose \<open>publishedAt\<close>. A failure of the checkout or of the push ends the run.
  The staging directory is not part of the modelled file system: \<^verbatim>\<open>fs.rm\<close> and the checkout
  change nothing else, and the console output has no effect on the result.
\<close>

definition publish_entry ::
  "'a platform_scheme \<Rightarrow> string \<Rightarrow> string \<Rightarrow> nat \<Rightarrow> PublishPlanEntry \<Rightarrow> error + RegistryUpdate" where
  "publish_entry P TEMP_DIR GHCR_REPO_PREFIX k it =
     (let widget = plan_widget it; manifest = plan_manifest it in
      case checkoutRepoAtCommit P k TEMP_DIR (widget_repo widget) (widget_commit widget) (widget_path widget) of
        Some e \<Rightarrow> Inl e
      | None \<Rightarrow>
         (let widgetDir = (case widget_path widget of None \<Rightarrow> TEMP_DIR | Some p \<Rightarrow> path_join P TEMP_DIR p);
              remote = GHCR_REPO_PREFIX @ ''/'' @ plan_handle it @ ''/'' @ plan_id it in
          andThen (push P k widgetDir remote widget manifest False) (\<lambda>pushResult.
          Inr (registry_update it (select_publishedAt (now P k) pushResult) (oras_digest pushResult)))))"

fun publish_loop ::
  "'a platform_scheme \<Rightarrow> string \<Rightarrow> string \<Rightarrow> nat \<Rightarrow> PublishPlanEntry list \<Rightarrow> error + RegistryUpdate list" where
  "publish_loop P TEMP_DIR GHCR_REPO_PREFIX k [] = Inr []"
| "publish_loop P TEMP_DIR GHCR_REPO_PREFIX k (it # rest) =
     andThen (publish_entry P TEMP_DIR GHCR_REPO_PREFIX k it) (\<lambda>update.
     andThen (publish_loop P TEMP_DIR GHCR_REPO_PREFIX (Suc k) rest) (\<lambda>updates.
     Inr (update # updates)))"

text \<open>
  The statements after the loop, from \<^verbatim>\<open>const now = new Date()\<close> to the sort: \<open>k\<close> is the
  number of clock readings made before.
\<close>

definition update_index ::
  "'a platform_scheme \<Rightarrow> nat \<Rightarrow> RegistryIndex \<Rightarrow> RegistryUpdate list \<Rightarrow> RegistryIndex" where
  "update_index P k registryIndex registryUpdatePlan =
     registryIndex
       \<lparr> index_api := 1,
         index_generatedAt := now P k,
         index_widgets :=
           array_sort (compare_entries (localeCompare P))
             (merge_all (index_widgets registryIndex) registryUpdatePlan) \<rparr>"

text \<open>
  Modelled from the spec: \<^verbatim>\<open>die\<close> of \<^verbatim>\<open>lib/utils.ts\<close> is not among the sources. The spec makes a
  missing environment variable a fatal error at startup, before any processing: the run ends
  with \<open>MissingEnv\<close> for the first variable of the list that is not set.
\<close>

fun require_env :: "'a platform_scheme \<Rightarrow> string list \<Rightarrow> error option" where
  "require_env P [] = None"
| "require_env P (varName # rest) =
     (case env P varName of None \<Rightarrow> Some (MissingEnv varName) | Some v \<Rightarrow> require_env P rest)"

text \<open>The whole script: the file system after the run, or the error that ended it.\<close>

definition publish :: "'a platform_scheme \<Rightarrow> files \<Rightarrow> error + files" where
  "publish P fs =
     (case require_env P [''GHCR_REPO_PREFIX'', ''PUBLISH_PLAN_PATH'', ''REGISTRY_DIR''] of
        Some e \<Rightarrow> Inl e
      | None \<Rightarrow>
         (let GHCR_REPO_PREFIX = the (env P ''GHCR_REPO_PREFIX'');
              PUBLISH_PLAN_PATH = the (env P ''PUBLISH_PLAN_PATH'');
              REGISTRY_DIR = the (env P ''REGISTRY_DIR'');
              TEMP_DIR = path_resolve P ''temp'' in
          andThen (parsePublishPlan P fs PUBLISH_PLAN_PATH) (\<lambda>publishPlan.
          andThen (publish_loop P TEMP_DIR GHCR_REPO_PREFIX 0 publishPlan) (\<lambda>registryUpdatePlan.
          andThen (parseRegistryIndex P fs REGISTRY_DIR) (\<lambda>registryIndex.
          Inr (writeRegistryIndex P fs REGISTRY_DIR
                 (update_index P (length publishPlan) registryIndex registryUpdatePlan)))))))"

section \<open>The SemVer grammar\<close>

text \<open>
  The grammar of semver.org for a valid version, rule by rule: the version core
  \<open>major.minor.patch\<close> of numeric identifiers, an optional pre-release after \<open>-\<close> and
  optional build metadata after \<open>+\<close>, both dot-separated lists of identifiers.
\<close>

definition is_digit :: "char \<Rightarrow> bool" where
  "is_digit c = (c \<in> set ''0123456789'')"

definition positive_digit :: "char \<Rightarrow> bool" where
  "positive_digit c = (c \<in> set ''123456789'')"

definition is_letter :: "char \<Rightarrow> bool" where
  "is_letter c = (c \<in> set ''ABCDEFGHIJKLMNOPQRSTUVWXYZabcdefghijklmnopqrstuvwxyz'')"

definition non_digit :: "char \<Rightarrow> bool" where
  "non_digit c = (is_letter c \<or> c = CHR ''-'')"

definition identifier_character :: "char \<Rightarrow> bool" where
  "identifier_character c = (is_digit c \<or> non_digit c)"

inductive digits :: "string \<Rightarrow> bool" where
  "is_digit d \<Longrightarrow> digits [d]"
| "is_digit d \<Longrightarrow> digits ds \<Longrightarrow> digits (d # ds)"

inductive identifier_characters :: "string \<Rightarrow> bool" where
  "identifier_character c \<Longrightarrow> identifier_characters [c]"
| "identifier_character c \<Longrightarrow> identifier_characters cs \<Longrightarrow> identifier_characters (c # cs)"

inductive numeric_identifier :: "string \<Rightarrow> bool" where
  "numeric_identifier ''0''"
| "positive_digit d \<Longrightarrow> numeric_identifier [d]"
| "positive_digit d \<Longrightarrow> digits ds \<Longrightarrow> numeric_identifier (d # ds)"

inductive alphanumeric_identifier :: "string \<Rightarrow> bool" where
  "non_digit c \<Longrightarrow> alphanumeric_identifier [c]"
| "non_digit c \<Longrightarrow> identifier_characters t \<Longrightarrow> alphanumeric_identifier (c # t)"
| "identifier_characters s \<Longrightarrow> non_digit c \<Longrightarrow> alphanumeric_identifier (s @ [c])"
| "identifier_characters s \<Longrightarrow> non_digit c \<Longrightarrow> identifier_characters t \<Longrightarrow>
     alphanumeric_identifier (s @ c # t)"

definition pre_release_identifier :: "string \<Rightarrow> bool" where
  "pre_release_identifier s = (alphanumeric_identifier s \<or> numeric_identifier s)"

definition build_identifier :: "string \<Rightarrow> bool" where
  "build_identifier s = (alphanumeric_identifier s \<or> digits s)"

inductive dot_separated :: "(string \<Rightarrow> bool) \<Rightarrow> string \<Rightarrow> bool" for P :: "string \<Rightarrow> bool" where
  "P x \<Longrightarrow> dot_separated P x"
| "P x \<Longrightarrow> dot_separated P rest \<Longrightarrow> dot_separated P (x @ ''.'' @ rest)"

inductive version_core :: "string \<Rightarrow> bool" where
  "numeric_identifier major \<Longrightarrow> numeric_identifier minor \<Longrightarrow> numeric_identifier patch \<Longrightarrow>
     version_core (major @ ''.'' @ minor @ ''.'' @ patch)"

inductive valid_semver :: "string \<Rightarrow> bool" where
  "version_core c \<Longrightarrow> valid_semver c"
| "version_core c \<Longrightarrow> dot_separated pre_release_identifier p \<Longrightarrow> valid_semver (c @ ''-'' @ p)"
| "version_core c \<Longrightarrow> dot_separated build_identifier b \<Longrightarrow> valid_semver (c @ ''+'' @ b)"
| "version_core c \<Longrightarrow> dot_separated pre_release_identifier p \<Longrightarrow> dot_separated build_identifier b \<Longrightarrow>
     valid_semver (c @ ''-'' @ p @ ''+'' @ b)"

section \<open>The language of a regular expression\<close>

definition cat_lang :: "string set \<Rightarrow> string set \<Rightarrow> string set" where
  "cat_lang A B = {u @ v | u v. u \<in> A \<and> v \<in> B}"

inductive_set rep_lang :: "string set \<Rightarrow> string set" for A :: "string set" where
  rep_nil: "[] \<in> rep_lang A"
| rep_more: "u \<in> A \<Longrightarrow> v \<in> rep_lang A \<Longrightarrow> u @ v \<in> rep_lang A"

fun lang :: "rexp \<Rightarrow> string set" where
  "lang Zero = {}"
| "lang One = {[]}"
| "lang (Lit c) = {[c]}"
| "lang (Class rs) = {[c] | c. in_class rs c}"
| "lang (Seq r s) = cat_lang (lang r) (lang s)"
| "lang (Alt r s) = lang r \<union> lang s"
| "lang (Star r) = rep_lang (lang r)"

definition left_quot :: "char \<Rightarrow> string set \<Rightarrow> string set" where
  "left_quot c A = {w. c # w \<in> A}"


section \<open>Specification-side notions and example values\<close>




text \<open>Comparison by character codes, as an example of a collation.\<close>

definition codeunit_compare :: "string \<Rightarrow> string \<Rightarrow> int" where
  "codeunit_compare a b = (if a < b then - 1 else if a = b then 0 else 1)"

text \<open>The plan entry of the end-to-end scenario and the values derived from it.\<close>

definition demo_widget :: Widget where
  "demo_widget =
     \<lparr> widget_version = ''1.0.0'', widget_repo = ''https://example.com/r.git'',
       widget_commit = ''0123456789abcdef0123456789abcdef01234567'', widget_path = None \<rparr>"

definition demo_manifest :: WidgetManifest where
  "demo_manifest =
     \<lparr> manifest_name = ''Clock'', manifest_version = ''1.0.0'',
       manifest_authors = [AuthorString ''A''], manifest_license = ''MIT'',
       manifest_description = ''A clock'', manifest_homepage = ''https://example.com'' \<rparr>"

definition demo_entry :: PublishPlanEntry where
  "demo_entry =
     \<lparr> plan_handle = ''acme'', plan_id = ''clock'', plan_widget = demo_widget,
       plan_manifest = demo_manifest \<rparr>"

definition demo_update :: RegistryUpdate where
  "demo_update = registry_update demo_entry ''2024-05-01T10:00:00.000Z'' ''sha256:1111''"

text \<open>A later publish of the same widget, with a changed manifest.\<close>

definition demo_update2 :: RegistryUpdate where
  "demo_update2 =
     registry_update
       (demo_entry
          \<lparr> plan_widget := demo_widget \<lparr> widget_version := ''1.1.0'' \<rparr>,
            plan_manifest := demo_manifest \<lparr> manifest_name := ''Clock 2'', manifest_version := ''1.1.0'',
               manifest_authors := [AuthorObject ''B'' None (Some ''https://b.example'')],
               manifest_description := ''A better clock'' \<rparr> \<rparr>)
       ''2024-06-01T10:00:00.000Z'' ''sha256:2222''"

definition blank_entry :: "string \<Rightarrow> string \<Rightarrow> RegistryEntry" where
  "blank_entry h i =
     \<lparr> entry_handle = h, entry_id = i, entry_name = ''n'', entry_authors = [AuthorString ''A''],
       entry_description = ''d'',
       entry_releases = [\<lparr> release_version = ''1.0.0'',
                           release_publishedAt = ''2024-01-01T00:00:00.000Z'',
                           release_digest = ''sha256:0000'' \<rparr>] \<rparr>"

text \<open>
  A platform for the examples. Its \<^verbatim>\<open>JSON.parse\<close>, \<^verbatim>\<open>JSON.stringify\<close> and \<^verbatim>\<open>yaml.parse\<close> are lookup
  tables on the few texts the examples use, its formats are simple tests, and its external
  commands always succeed: the first push reports a creation time, the later ones do not.
\<close>

definition demo_entry_json :: json where
  "demo_entry_json =
     JObj [(''handle'', JStr ''acme''), (''id'', JStr ''clock''),
           (''widget'', JObj [(''version'', JStr ''1.0.0''),
                             (''repo'', JStr ''https://example.com/r.git''),
                             (''commit'', JStr ''0123456789abcdef0123456789abcdef01234567'')]),
           (''manifest'', JObj [(''name'', JStr ''Clock''), (''version'', JStr ''1.0.0''),
                               (''authors'', JArr [JStr ''A'']), (''license'', JStr ''MIT''),
                               (''description'', JStr ''A clock''),
                               (''homepage'', JStr ''https://example.com'')])]"

definition demo_push_json :: "bool \<Rightarrow> json" where
  "demo_push_json with_created =
     JObj ([(''mediaType'', JStr ''application/vnd.oci.image.manifest.v1+json''),
            (''digest'', JStr ''sha256:1111''), (''size'', JNum 588)]
           @ (if with_created
              then [(''annotations'',
                     JObj [(''org.opencontainers.image.created'', JStr ''2024-04-30T23:59:59Z'')])]
              else [])
           @ [(''reference'', JStr ''ghcr.io/deskulpt/acme/clock:v1.0.0''),
              (''referenceAsTags'', JArr [])])"

definition demo_index :: RegistryIndex where
  "demo_index =
     \<lparr> index_api = 1, index_generatedAt = ''2024-05-01T10:00:09.000Z'',
       index_widgets =
         [(blank_entry ''acme'' ''clock'')
            \<lparr> entry_authors := [AuthorString ''A'',
                 AuthorObject ''B'' (Some ''b@example.com'') (Some ''https://b.example''),
                 AuthorObject ''C'' None None] \<rparr>] \<rparr>"

definition demo_platform :: platform where
  "demo_platform =
     \<lparr> env = map_of [(''GHCR_REPO_PREFIX'', ''ghcr.io/deskulpt''),
                      (''PUBLISH_PLAN_PATH'', ''plan.jsonl''),
                      (''REGISTRY_DIR'', ''registry'')],
       now = (\<lambda>k. if k = 0 then ''2024-05-01T10:00:00.000Z''
                  else if k = 1 then ''2024-05-01T10:00:01.000Z''
                  else ''2024-05-01T10:00:02.000Z''),
       path_join = (\<lambda>a b. a @ ''/'' @ b),
       path_resolve = (\<lambda>p. ''/work/'' @ p),
       JSON_parse = map_of [(''<entry acme/clock>'', demo_entry_json),
                             (''<push result with created>'', demo_push_json True),
                             (''<push result>'', demo_push_json False),
                             (''<index>'', index_to_json demo_index)],
       JSON_stringify = (\<lambda>j. if j = index_to_json demo_index then ''<index>'' else ''<json>''),
       yaml_parse = map_of [(''user: 7'', JObj [(''user'', JNum 7)]),
                             (''user: seven'', JObj [(''user'', JStr ''seven'')])],
       zod_url = (\<lambda>s. if take 8 s = ''https://'' then Some s else None),
       zod_email = (\<lambda>s. CHR ''@'' \<in> set s),
       zod_iso_datetime = (\<lambda>s. length s = 24 \<and> last s = CHR ''Z''),
       zod_base64 = (\<lambda>s. True),
       localeCompare = codeunit_compare,
       fileExistsAtCommit = (\<lambda>file commit. Inr (file = ''publishers/acme.yaml'' \<or> file = ''publishers/bad.yaml'')),
       showFileAtCommit = (\<lambda>file commit.
          if file = ''publishers/acme.yaml'' then Inr ''user: 7''
          else if file = ''publishers/bad.yaml'' then Inr ''user: seven''
          else Inl (ToolError ''git show'')),
       checkoutRepoAtCommit = (\<lambda>k dir repo commit path. None),
       exec = (\<lambda>k cmd args cwd.
          if k = 0 then Inr ''<push result with created>'' else Inr ''<push result>'') \<rparr>"

text \<open>A result that, when it is an error, is a validation error.\<close>

definition fails_only_with_ZodError :: "error + 'a \<Rightarrow> bool" where
  "fails_only_with_ZodError r = (case r of Inl e \<Rightarrow> e = ZodError | Inr v \<Rightarrow> True)"





section \<open>Properties of the merge loop\<close>

lemma modify_first_split:
  "\<not> list_ex p pre \<Longrightarrow> p e \<Longrightarrow> modify_first p f (pre @ e # post) = pre @ f e # post"
  by (induction pre) auto

lemma find_Some_split:
  "find p xs = Some e \<Longrightarrow> \<exists>pre post. xs = pre @ e # post \<and> \<not> list_ex p pre \<and> p e"
proof (induction xs)
  case Nil
  then show ?case by simp
next
  case (Cons x xs)
  show ?case
  proof (cases "p x")
    case True
    with Cons.prems have "x # xs = [] @ e # xs \<and> \<not> list_ex p [] \<and> p e" by simp
    then show ?thesis by blast
  next
    case False
    with Cons obtain pre post where "xs = pre @ e # post" "\<not> list_ex p pre" "p e" by auto
    with False have "x # xs = (x # pre) @ e # post \<and> \<not> list_ex p (x # pre) \<and> p e" by simp
    then show ?thesis by blast
  qed
qed

text \<open>
  C1. For one accumulated update, the merge looks for the first entry with the update's
  (handle, id). If there is none, the new list is the old one followed by a new entry that
  has exactly the one new release and the manifest's name, authors and description. If
  there is one, the first such entry gets the manifest's name, authors and description and
  the new release in front of its releases, which stay in place behind it; every other
  entry is unchanged. The loop applies this to the updates in their order.
\<close>

theorem merge_update_insert_or_prepend:
  fixes it :: RegistryUpdate
  shows
  "(\<not> list_ex (\<lambda>e. entry_handle e = plan_handle it \<and> entry_id e = plan_id it) widgets \<longrightarrow>
      merge_update widgets it =
        widgets @
        [\<lparr> entry_handle = plan_handle it, entry_id = plan_id it,
           entry_name = manifest_name (plan_manifest it),
           entry_authors = manifest_authors (plan_manifest it),
           entry_description = manifest_description (plan_manifest it),
           entry_releases =
             [\<lparr> release_version = widget_version (plan_widget it),
                 release_publishedAt = upd_publishedAt it,
                 release_digest = upd_digest it \<rparr>] \<rparr>]) \<and>
   (list_ex (\<lambda>e. entry_handle e = plan_handle it \<and> entry_id e = plan_id it) widgets \<longrightarrow>
      (\<exists>pre entry post.
         widgets = pre @ entry # post \<and>
         \<not> list_ex (\<lambda>e. entry_handle e = plan_handle it \<and> entry_id e = plan_id it) pre \<and>
         entry_handle entry = plan_handle it \<and> entry_id entry = plan_id it \<and>
         merge_update widgets it =
           pre @
           \<lparr> entry_handle = entry_handle entry, entry_id = entry_id entry,
             entry_name = manifest_name (plan_manifest it),
             entry_authors = manifest_authors (plan_manifest it),
             entry_description = manifest_description (plan_manifest it),
             entry_releases =
               \<lparr> release_version = widget_version (plan_widget it),
                 release_publishedAt = upd_publishedAt it,
                 release_digest = upd_digest it \<rparr> # entry_releases entry \<rparr> # post)) \<and>
   merge_all widgets [] = widgets \<and>
   (\<forall>rest. merge_all widgets (it # rest) = merge_all (merge_update widgets it) rest)"
proof (intro conjI impI allI)
  let ?p = "same_key (plan_handle it) (plan_id it)"
  have p: "?p = (\<lambda>e. entry_handle e = plan_handle it \<and> entry_id e = plan_id it)"
    by (simp add: same_key_def fun_eq_iff)
  {
    assume "\<not> list_ex (\<lambda>e. entry_handle e = plan_handle it \<and> entry_id e = plan_id it) widgets"
    then have "find ?p widgets = None"
      by (simp add: p find_None_iff list_ex_iff)
    then show "merge_update widgets it =
        widgets @
        [\<lparr> entry_handle = plan_handle it, entry_id = plan_id it,
           entry_name = manifest_name (plan_manifest it),
           entry_authors = manifest_authors (plan_manifest it),
           entry_description = manifest_description (plan_manifest it),
           entry_releases =
             [\<lparr> release_version = widget_version (plan_widget it),
                 release_publishedAt = upd_publishedAt it,
                 release_digest = upd_digest it \<rparr>] \<rparr>]"
      by (simp add: merge_update_def new_entry_def releaseData_def)
  }
  {
    assume "list_ex (\<lambda>e. entry_handle e = plan_handle it \<and> entry_id e = plan_id it) widgets"
    then obtain entry where f: "find ?p widgets = Some entry"
      by (cases "find ?p widgets") (auto simp: p find_None_iff list_ex_iff)
    from find_Some_split[OF f] obtain pre post where
      s: "widgets = pre @ entry # post" "\<not> list_ex ?p pre" "?p entry" by blast
    have "merge_update widgets it = pre @ updated_entry it entry # post"
      using f s by (simp add: merge_update_def modify_first_split)
    with s show "\<exists>pre entry post.
         widgets = pre @ entry # post \<and>
         \<not> list_ex (\<lambda>e. entry_handle e = plan_handle it \<and> entry_id e = plan_id it) pre \<and>
         entry_handle entry = plan_handle it \<and> entry_id entry = plan_id it \<and>
         merge_update widgets it =
           pre @
           \<lparr> entry_handle = entry_handle entry, entry_id = entry_id entry,
             entry_name = manifest_name (plan_manifest it),
             entry_authors = manifest_authors (plan_manifest it),
             entry_description = manifest_description (plan_manifest it),
             entry_releases =
               \<lparr> release_version = widget_version (plan_widget it),
                 release_publishedAt = upd_publishedAt it,
                 release_digest = upd_digest it \<rparr> # entry_releases entry \<rparr> # post"
      unfolding p by (intro exI[of _ pre] exI[of _ entry] exI[of _ post])
        (simp add: updated_entry_def releaseData_def)
  }
  show "merge_all widgets [] = widgets" by (simp add: merge_all_def)
  show "\<And>rest. merge_all widgets (it # rest) = merge_all (merge_update widgets it) rest"
    by (simp add: merge_all_def)
qed

theorem merge_update_insert_or_prepend_witness:
  "merge_update [] demo_update =
     [\<lparr> entry_handle = ''acme'', entry_id = ''clock'', entry_name = ''Clock'',
         entry_authors = [AuthorString ''A''], entry_description = ''A clock'',
         entry_releases =
           [\<lparr> release_version = ''1.0.0'', release_publishedAt = ''2024-05-01T10:00:00.000Z'',
               release_digest = ''sha256:1111'' \<rparr>] \<rparr>] \<and>
   merge_update (merge_update [] demo_update) demo_update2 =
     [\<lparr> entry_handle = ''acme'', entry_id = ''clock'', entry_name = ''Clock 2'',
         entry_authors = [AuthorObject ''B'' None (Some ''https://b.example'')],
         entry_description = ''A better clock'',
         entry_releases =
           [\<lparr> release_version = ''1.1.0'', release_publishedAt = ''2024-06-01T10:00:00.000Z'',
               release_digest = ''sha256:2222'' \<rparr>,
            \<lparr> release_version = ''1.0.0'', release_publishedAt = ''2024-05-01T10:00:00.000Z'',
               release_digest = ''sha256:1111'' \<rparr>] \<rparr>]"
  using merge_update_insert_or_prepend[where it = demo_update and widgets = "[]"]
    merge_update_insert_or_prepend[where it = demo_update2 and widgets = "merge_update [] demo_update"]
  by (simp add: merge_update_def new_entry_def updated_entry_def releaseData_def same_key_def
      demo_update_def demo_update2_def registry_update_def demo_entry_def demo_widget_def
      demo_manifest_def PublishPlanEntry.defs)

section \<open>Properties of the sort\<close>













section \<open>Two updates for one pair\<close>

















section \<open>Properties of the regular expressions\<close>

subsection \<open>The matcher decides the language\<close>

lemma nullable_iff: "nullable r \<longleftrightarrow> [] \<in> lang r"
  by (induction r) (auto simp: cat_lang_def intro: rep_nil)

lemma left_quot_cat:
  "left_quot c (cat_lang A B) = cat_lang (left_quot c A) B \<union> (if [] \<in> A then left_quot c B else {})"
proof (intro set_eqI iffI)
  fix w assume "w \<in> left_quot c (cat_lang A B)"
  then obtain u v where uv: "c # w = u @ v" "u \<in> A" "v \<in> B"
    by (auto simp: left_quot_def cat_lang_def)
  show "w \<in> cat_lang (left_quot c A) B \<union> (if [] \<in> A then left_quot c B else {})"
  proof (cases u)
    case Nil
    with uv show ?thesis by (auto simp: left_quot_def)
  next
    case (Cons a u')
    with uv have "a = c" "w = u' @ v" by auto
    with uv Cons show ?thesis by (auto simp: left_quot_def cat_lang_def)
  qed
next
  fix w assume "w \<in> cat_lang (left_quot c A) B \<union> (if [] \<in> A then left_quot c B else {})"
  then consider (l) "w \<in> cat_lang (left_quot c A) B" | (r) "[] \<in> A" "w \<in> left_quot c B"
    by (auto split: if_splits)
  then show "w \<in> left_quot c (cat_lang A B)"
  proof cases
    case l
    then obtain u v where "w = u @ v" "c # u \<in> A" "v \<in> B"
      by (auto simp: left_quot_def cat_lang_def)
    then have "c # w = (c # u) @ v \<and> c # u \<in> A \<and> v \<in> B" by simp
    then show ?thesis unfolding left_quot_def cat_lang_def by blast
  next
    case r
    then have "c # w = [] @ (c # w) \<and> [] \<in> A \<and> c # w \<in> B" by (simp add: left_quot_def)
    then show ?thesis unfolding left_quot_def cat_lang_def by blast
  qed
qed

lemma rep_lang_cons:
  "x \<in> rep_lang A \<Longrightarrow> x = c # w \<Longrightarrow> \<exists>u v. w = u @ v \<and> c # u \<in> A \<and> v \<in> rep_lang A"
proof (induction arbitrary: w rule: rep_lang.induct)
  case rep_nil
  then show ?case by simp
next
  case (rep_more u v)
  show ?case
  proof (cases u)
    case Nil
    with rep_more show ?thesis by simp
  next
    case (Cons a u')
    with rep_more.prems have "a = c" "w = u' @ v" by auto
    with rep_more.hyps Cons show ?thesis by blast
  qed
qed

lemma left_quot_rep: "left_quot c (rep_lang A) = cat_lang (left_quot c A) (rep_lang A)"
proof (intro set_eqI iffI)
  fix w assume "w \<in> left_quot c (rep_lang A)"
  then have "c # w \<in> rep_lang A" by (simp add: left_quot_def)
  from rep_lang_cons[OF this refl] show "w \<in> cat_lang (left_quot c A) (rep_lang A)"
    by (auto simp: left_quot_def cat_lang_def)
next
  fix w assume "w \<in> cat_lang (left_quot c A) (rep_lang A)"
  then obtain u v where "w = u @ v" "c # u \<in> A" "v \<in> rep_lang A"
    by (auto simp: left_quot_def cat_lang_def)
  then have "(c # u) @ v \<in> rep_lang A" "c # w = (c # u) @ v"
    using rep_more[of "c # u" A v] by simp_all
  then show "w \<in> left_quot c (rep_lang A)" by (simp add: left_quot_def)
qed

lemma lang_deriv: "lang (deriv c r) = left_quot c (lang r)"
proof (induction r)
  case (Seq r1 r2)
  then show ?case by (simp add: left_quot_cat nullable_iff)
next
  case (Star r)
  then show ?case by (simp add: left_quot_rep)
qed (auto simp: left_quot_def)

lemma regex_test_iff: "regex_test r s \<longleftrightarrow> s \<in> lang r"
  unfolding regex_test_def
proof (induction s arbitrary: r)
  case Nil
  then show ?case by (simp add: nullable_iff)
next
  case (Cons c s)
  then show ?case by (simp add: lang_deriv left_quot_def)
qed


subsection \<open>Character classes\<close>

lemma range_enum: "(lo \<le> (n::nat) \<and> n \<le> hi) = (n \<in> set [lo..<Suc hi])"
  by auto

lemma of_char_eq_nat: "(of_char c = (n::nat)) = (n < 256 \<and> c = char_of n)"
  by auto

lemma digit_range: "(48 \<le> (of_char c :: nat) \<and> (of_char c :: nat) \<le> 57) = is_digit c"
proof -
  have "(48 \<le> (of_char c :: nat) \<and> (of_char c :: nat) \<le> 57) = (of_char c \<in> set [48..<Suc 57])"
    by (rule range_enum)
  also have "\<dots> = is_digit c"
    unfolding is_digit_def by (simp add: upt_rec of_char_eq_nat char_of_def bit_0)
  finally show ?thesis .
qed

lemma positive_range: "(49 \<le> (of_char c :: nat) \<and> (of_char c :: nat) \<le> 57) = positive_digit c"
proof -
  have "(49 \<le> (of_char c :: nat) \<and> (of_char c :: nat) \<le> 57) = (of_char c \<in> set [49..<Suc 57])"
    by (rule range_enum)
  also have "\<dots> = positive_digit c"
    unfolding positive_digit_def by (simp add: upt_rec of_char_eq_nat char_of_def bit_0)
  finally show ?thesis .
qed

lemma lower_range: "(97 \<le> (of_char c :: nat) \<and> (of_char c :: nat) \<le> 122) = (c \<in> set ''abcdefghijklmnopqrstuvwxyz'')"
proof -
  have "(97 \<le> (of_char c :: nat) \<and> (of_char c :: nat) \<le> 122) = (of_char c \<in> set [97..<Suc 122])"
    by (rule range_enum)
  also have "\<dots> = (c \<in> set ''abcdefghijklmnopqrstuvwxyz'')"
    by (simp add: upt_rec of_char_eq_nat char_of_def bit_0)
  finally show ?thesis .
qed

lemma upper_range: "(65 \<le> (of_char c :: nat) \<and> (of_char c :: nat) \<le> 90) = (c \<in> set ''ABCDEFGHIJKLMNOPQRSTUVWXYZ'')"
proof -
  have "(65 \<le> (of_char c :: nat) \<and> (of_char c :: nat) \<le> 90) = (of_char c \<in> set [65..<Suc 90])"
    by (rule range_enum)
  also have "\<dots> = (c \<in> set ''ABCDEFGHIJKLMNOPQRSTUVWXYZ'')"
    by (simp add: upt_rec of_char_eq_nat char_of_def bit_0)
  finally show ?thesis .
qed

lemma hyphen_range: "(45 \<le> (of_char c :: nat) \<and> (of_char c :: nat) \<le> 45) = (c = CHR ''-'')"
proof -
  have "(45 \<le> (of_char c :: nat) \<and> (of_char c :: nat) \<le> 45) = (of_char c = (45::nat))"
    by auto
  also have "\<dots> = (c = CHR ''-'')"
    by (simp add: of_char_eq_nat char_of_def bit_0)
  finally show ?thesis .
qed

lemma class_digit: "in_class [(CHR ''0'', CHR ''9'')] c = is_digit c"
  by (simp add: in_class_def digit_range)

lemma class_positive: "in_class [(CHR ''1'', CHR ''9'')] c = positive_digit c"
  by (simp add: in_class_def positive_range)

lemma class_non_digit:
  "in_class [(CHR ''a'', CHR ''z''), (CHR ''A'', CHR ''Z''), (CHR ''-'', CHR ''-'')] c = non_digit c"
proof -
  have "in_class [(CHR ''a'', CHR ''z''), (CHR ''A'', CHR ''Z''), (CHR ''-'', CHR ''-'')] c
     = ((97 \<le> (of_char c :: nat) \<and> (of_char c :: nat) \<le> 122) \<or>
        (65 \<le> (of_char c :: nat) \<and> (of_char c :: nat) \<le> 90) \<or>
        (45 \<le> (of_char c :: nat) \<and> (of_char c :: nat) \<le> 45))"
    by (simp add: in_class_def)
  also have "\<dots> = non_digit c"
    unfolding lower_range upper_range hyphen_range non_digit_def is_letter_def by auto
  finally show ?thesis .
qed

lemma class_identifier:
  "in_class [(CHR ''0'', CHR ''9''), (CHR ''a'', CHR ''z''), (CHR ''A'', CHR ''Z''), (CHR ''-'', CHR ''-'')] c
     = identifier_character c"
proof -
  have "in_class [(CHR ''0'', CHR ''9''), (CHR ''a'', CHR ''z''), (CHR ''A'', CHR ''Z''), (CHR ''-'', CHR ''-'')] c
     = (in_class [(CHR ''0'', CHR ''9'')] c \<or>
        in_class [(CHR ''a'', CHR ''z''), (CHR ''A'', CHR ''Z''), (CHR ''-'', CHR ''-'')] c)"
    by (simp add: in_class_def)
  then show ?thesis by (simp add: class_digit class_non_digit identifier_character_def)
qed


subsection \<open>Closed forms of the grammar rules\<close>

lemma digits_iff: "digits s \<longleftrightarrow> s \<noteq> [] \<and> list_all is_digit s"
proof
  assume "digits s"
  then show "s \<noteq> [] \<and> list_all is_digit s" by induction auto
next
  assume "s \<noteq> [] \<and> list_all is_digit s"
  then show "digits s"
  proof (induction s)
    case Nil
    then show ?case by simp
  next
    case (Cons c s)
    then show ?case by (cases "s = []") (auto intro: digits.intros)
  qed
qed

lemma identifier_characters_iff:
  "identifier_characters s \<longleftrightarrow> s \<noteq> [] \<and> list_all identifier_character s"
proof
  assume "identifier_characters s"
  then show "s \<noteq> [] \<and> list_all identifier_character s" by induction auto
next
  assume "s \<noteq> [] \<and> list_all identifier_character s"
  then show "identifier_characters s"
  proof (induction s)
    case Nil
    then show ?case by simp
  next
    case (Cons c s)
    then show ?case by (cases "s = []") (auto intro: identifier_characters.intros)
  qed
qed

lemma numeric_identifier_iff:
  "numeric_identifier s \<longleftrightarrow>
     s = ''0'' \<or> (\<exists>d ds. s = d # ds \<and> positive_digit d \<and> list_all is_digit ds)"
proof
  assume "numeric_identifier s"
  then show "s = ''0'' \<or> (\<exists>d ds. s = d # ds \<and> positive_digit d \<and> list_all is_digit ds)"
    by cases (auto simp: digits_iff)
next
  assume "s = ''0'' \<or> (\<exists>d ds. s = d # ds \<and> positive_digit d \<and> list_all is_digit ds)"
  then consider "s = ''0''" | d ds where "s = d # ds" "positive_digit d" "list_all is_digit ds"
    by blast
  then show "numeric_identifier s"
  proof cases
    case 1
    then show ?thesis by (simp add: numeric_identifier.intros)
  next
    case 2
    then show ?thesis
      by (cases "ds = []") (auto intro: numeric_identifier.intros simp: digits_iff)
  qed
qed

lemma alphanumeric_identifier_iff:
  "alphanumeric_identifier s \<longleftrightarrow>
     (\<exists>pre c post. s = pre @ c # post \<and> non_digit c \<and>
        list_all identifier_character pre \<and> list_all identifier_character post)"
  (is "?L \<longleftrightarrow> ?R")
proof
  assume ?L
  then show ?R
  proof cases
    case (1 c)
    then have "s = [] @ c # [] \<and> non_digit c \<and> list_all identifier_character [] \<and>
        list_all identifier_character []" by simp
    then show ?thesis by blast
  next
    case (2 c t)
    then have "s = [] @ c # t \<and> non_digit c \<and> list_all identifier_character [] \<and>
        list_all identifier_character t" by (simp add: identifier_characters_iff)
    then show ?thesis by blast
  next
    case (3 u c)
    then have "s = u @ c # [] \<and> non_digit c \<and> list_all identifier_character u \<and>
        list_all identifier_character []" by (simp add: identifier_characters_iff)
    then show ?thesis by blast
  next
    case (4 u c t)
    then have "s = u @ c # t \<and> non_digit c \<and> list_all identifier_character u \<and>
        list_all identifier_character t" by (simp add: identifier_characters_iff)
    then show ?thesis by blast
  qed
next
  assume ?R
  then obtain pre c post where h: "s = pre @ c # post" "non_digit c"
      "list_all identifier_character pre" "list_all identifier_character post"
    by blast
  show ?L
  proof (cases "pre = []")
    case True
    note pre = this
    show ?thesis
    proof (cases "post = []")
      case True
      with pre h show ?thesis by (simp add: alphanumeric_identifier.intros)
    next
      case False
      with pre h show ?thesis
        by (simp add: alphanumeric_identifier.intros identifier_characters_iff)
    qed
  next
    case False
    note pre = this
    show ?thesis
    proof (cases "post = []")
      case True
      with pre h show ?thesis
        by (simp add: alphanumeric_identifier.intros identifier_characters_iff)
    next
      case False
      with pre h show ?thesis
        by (simp add: alphanumeric_identifier.intros identifier_characters_iff)
    qed
  qed
qed

subsection \<open>The identifiers\<close>

lemma rep_lang_class: "rep_lang {[c] | c. P c} = {s. list_all P s}"
proof (intro set_eqI iffI)
  fix s assume "s \<in> rep_lang {[c] | c. P c}"
  then show "s \<in> {s. list_all P s}" by induction auto
next
  fix s assume "s \<in> {s. list_all P s}"
  then have "list_all P s" by simp
  then show "s \<in> rep_lang {[c] | c. P c}"
  proof (induction s)
    case Nil
    then show ?case by (simp add: rep_nil)
  next
    case (Cons c s)
    then have "[c] \<in> {[c] | c. P c}" "s \<in> rep_lang {[c] | c. P c}" by auto
    from rep_more[OF this] show ?case by simp
  qed
qed

lemma rep_lang_rx_digit: "rep_lang (lang rx_digit) = {s. list_all is_digit s}"
  by (simp add: rx_digit_def class_digit rep_lang_class)

lemma cat_lang_single: "cat_lang {[c] | c. P c} B = {c # v | c v. P c \<and> v \<in> B}"
proof (intro set_eqI iffI)
  fix s assume "s \<in> cat_lang {[c] | c. P c} B"
  then show "s \<in> {c # v | c v. P c \<and> v \<in> B}" by (auto simp: cat_lang_def)
next
  fix s assume "s \<in> {c # v | c v. P c \<and> v \<in> B}"
  then obtain c v where "s = [c] @ v" "P c" "v \<in> B" by auto
  then show "s \<in> cat_lang {[c] | c. P c} B" unfolding cat_lang_def by blast
qed

lemma lang_rx_numeric: "lang rx_numeric = {s. numeric_identifier s}"
proof -
  have "lang rx_numeric = {''0''} \<union> {d # ds | d ds. positive_digit d \<and> ds \<in> {s. list_all is_digit s}}"
    by (simp add: rx_numeric_def rep_lang_rx_digit class_positive cat_lang_single)
  also have "\<dots> = {s. numeric_identifier s}"
    unfolding numeric_identifier_iff by auto
  finally show ?thesis .
qed

lemma split_first_non_digit:
  assumes "list_all identifier_character s" "list_ex non_digit s"
  shows "\<exists>pre c post. s = pre @ c # post \<and> list_all is_digit pre \<and> non_digit c \<and>
            list_all identifier_character post"
  using assms
proof (induction s)
  case Nil
  then show ?case by simp
next
  case (Cons a s)
  show ?case
  proof (cases "non_digit a")
    case True
    with Cons.prems have "a # s = [] @ a # s \<and> list_all is_digit [] \<and> non_digit a \<and>
        list_all identifier_character s" by simp
    then show ?thesis by blast
  next
    case False
    from Cons.prems have "identifier_character a" and s1: "list_all identifier_character s"
      by simp_all
    with False have a: "is_digit a" by (simp add: identifier_character_def)
    from Cons.prems False have s2: "list_ex non_digit s" by simp
    note s = s1 s2
    from Cons.IH[OF s] obtain pre c post where
      "s = pre @ c # post" "list_all is_digit pre" "non_digit c" "list_all identifier_character post"
      by blast
    with a have "a # s = (a # pre) @ c # post \<and> list_all is_digit (a # pre) \<and> non_digit c \<and>
        list_all identifier_character post" by simp
    then show ?thesis by blast
  qed
qed

lemma digits_are_identifier_characters: "list_all is_digit s \<Longrightarrow> list_all identifier_character s"
  by (induction s) (auto simp: identifier_character_def)

lemma alphanumeric_identifier_first:
  "alphanumeric_identifier s \<longleftrightarrow>
     (\<exists>pre c post. s = pre @ c # post \<and> list_all is_digit pre \<and> non_digit c \<and>
        list_all identifier_character post)"
  (is "?L \<longleftrightarrow> ?R")
proof
  assume ?L
  then obtain pre c post where h: "s = pre @ c # post" "non_digit c"
      "list_all identifier_character pre" "list_all identifier_character post"
    unfolding alphanumeric_identifier_iff by blast
  then have "list_all identifier_character s" "list_ex non_digit s"
    by (auto simp: identifier_character_def)
  then show ?R by (rule split_first_non_digit)
next
  assume ?R
  then show ?L
    unfolding alphanumeric_identifier_iff
    using digits_are_identifier_characters by blast
qed

lemma lang_rx_alphanumeric: "lang rx_alphanumeric = {s. alphanumeric_identifier s}"
proof -
  have "lang rx_alphanumeric
     = cat_lang {s. list_all is_digit s}
         (cat_lang {[c] | c. non_digit c} {s. list_all identifier_character s})"
    by (simp add: rx_alphanumeric_def rep_lang_rx_digit class_non_digit class_identifier rep_lang_class)
  also have "\<dots> = {s. alphanumeric_identifier s}"
  proof (intro set_eqI iffI)
    fix s assume "s \<in> cat_lang {s. list_all is_digit s}
         (cat_lang {[c] | c. non_digit c} {s. list_all identifier_character s})"
    then obtain pre c post where "s = pre @ c # post" "list_all is_digit pre" "non_digit c"
        "list_all identifier_character post"
      by (auto simp: cat_lang_single) (auto simp: cat_lang_def)
    then show "s \<in> {s. alphanumeric_identifier s}"
      unfolding alphanumeric_identifier_first by blast
  next
    fix s assume "s \<in> {s. alphanumeric_identifier s}"
    then obtain pre c post where "s = pre @ c # post" "list_all is_digit pre" "non_digit c"
        "list_all identifier_character post"
      unfolding alphanumeric_identifier_first by blast
    then have "s = pre @ (c # post)" "pre \<in> {s. list_all is_digit s}"
        "c # post \<in> {c # v | c v. non_digit c \<and> v \<in> {s. list_all identifier_character s}}"
      by auto
    then show "s \<in> cat_lang {s. list_all is_digit s}
         (cat_lang {[c] | c. non_digit c} {s. list_all identifier_character s})"
      unfolding cat_lang_single unfolding cat_lang_def by blast
  qed
  finally show ?thesis .
qed

lemma lang_rx_prerelease_id: "lang rx_prerelease_id = {s. pre_release_identifier s}"
proof -
  have "lang rx_prerelease_id = lang rx_numeric \<union> lang rx_alphanumeric"
    by (simp add: rx_prerelease_id_def rx_numeric_def Un_assoc)
  then show ?thesis
    by (auto simp: lang_rx_numeric lang_rx_alphanumeric pre_release_identifier_def)
qed

lemma no_non_digit_all_digits:
  "list_all identifier_character s \<Longrightarrow> \<not> list_ex non_digit s \<Longrightarrow> list_all is_digit s"
  by (induction s) (auto simp: identifier_character_def)

lemma build_identifier_iff: "build_identifier s \<longleftrightarrow> s \<noteq> [] \<and> list_all identifier_character s"
proof
  assume "build_identifier s"
  then show "s \<noteq> [] \<and> list_all identifier_character s"
    unfolding build_identifier_def alphanumeric_identifier_iff digits_iff
    using digits_are_identifier_characters by (auto simp: identifier_character_def)
next
  assume h: "s \<noteq> [] \<and> list_all identifier_character s"
  show "build_identifier s"
  proof (cases "list_ex non_digit s")
    case True
    with h have "alphanumeric_identifier s"
      unfolding alphanumeric_identifier_first using split_first_non_digit by blast
    then show ?thesis by (simp add: build_identifier_def)
  next
    case False
    with h have "list_all is_digit s"
      by (simp add: no_non_digit_all_digits)
    with h show ?thesis by (simp add: build_identifier_def digits_iff)
  qed
qed

lemma lang_rx_build_id: "lang rx_build_id = {s. build_identifier s}"
proof -
  have "lang rx_build_id = cat_lang {[c] | c. identifier_character c} {s. list_all identifier_character s}"
    by (simp add: rx_build_id_def Plus_def class_identifier rep_lang_class)
  also have "\<dots> = {s. build_identifier s}"
    unfolding build_identifier_iff cat_lang_def
  proof (intro set_eqI iffI)
    fix s assume "s \<in> {u @ v | u v. u \<in> {[c] | c. identifier_character c} \<and> v \<in> {s. list_all identifier_character s}}"
    then show "s \<in> {s. s \<noteq> [] \<and> list_all identifier_character s}" by auto
  next
    fix s assume "s \<in> {s. s \<noteq> [] \<and> list_all identifier_character s}"
    then obtain c t where "s = [c] @ t" "identifier_character c" "list_all identifier_character t"
      by (cases s) auto
    then show "s \<in> {u @ v | u v. u \<in> {[c] | c. identifier_character c} \<and> v \<in> {s. list_all identifier_character s}}"
      by blast
  qed
  finally show ?thesis .
qed


subsection \<open>The whole expression\<close>

lemma dot_separated_in_lang:
  "dot_separated P s \<Longrightarrow> s \<in> cat_lang {s. P s} (rep_lang (cat_lang {''.''} {s. P s}))"
proof (induction rule: dot_separated.induct)
  case (1 x)
  then have "x = x @ [] \<and> x \<in> {s. P s} \<and> [] \<in> rep_lang (cat_lang {''.''} {s. P s})"
    by (simp add: rep_nil)
  then show ?case unfolding cat_lang_def[of "{s. P s}"] by blast
next
  case (2 x rest)
  then obtain y t where yt: "rest = y @ t" "P y" "t \<in> rep_lang (cat_lang {''.''} {s. P s})"
    unfolding cat_lang_def[of "{s. P s}"] by blast
  have "''.'' @ y \<in> cat_lang {''.''} {s. P s}"
    using yt(2) unfolding cat_lang_def by blast
  from rep_more[OF this yt(3)] 2(1) yt(1)
  have "x @ ''.'' @ rest = x @ ((''.'' @ y) @ t) \<and> x \<in> {s. P s} \<and>
      (''.'' @ y) @ t \<in> rep_lang (cat_lang {''.''} {s. P s})"
    by simp
  then show ?case unfolding cat_lang_def[of "{s. P s}"] by blast
qed

lemma lang_in_dot_separated:
  "t \<in> rep_lang (cat_lang {''.''} {s. P s}) \<Longrightarrow> P x \<Longrightarrow> dot_separated P (x @ t)"
proof (induction arbitrary: x rule: rep_lang.induct)
  case rep_nil
  then show ?case by (simp add: dot_separated.intros)
next
  case (rep_more u v)
  from rep_more.hyps(1) obtain y where y: "u = ''.'' @ y" "P y"
    by (auto simp: cat_lang_def)
  from rep_more.IH[OF y(2)] have "dot_separated P (y @ v)" .
  from dot_separated.intros(2)[OF rep_more.prems this] y(1)
  show ?case by simp
qed

lemma lang_dot_separated:
  assumes "lang r = {s. P s}"
  shows "lang (rx_dotted r) = {s. dot_separated P s}"
proof -
  have "lang (rx_dotted r)
      = cat_lang {s. P s} (rep_lang (cat_lang {''.''} {s. P s}))"
    by (simp add: assms rx_dotted_def)
  also have "\<dots> = {s. dot_separated P s}"
  proof (intro set_eqI iffI)
    fix s assume "s \<in> cat_lang {s. P s} (rep_lang (cat_lang {''.''} {s. P s}))"
    then obtain x t where "s = x @ t" "P x" "t \<in> rep_lang (cat_lang {''.''} {s. P s})"
      unfolding cat_lang_def[of "{s. P s}"] by blast
    then show "s \<in> {s. dot_separated P s}" by (simp add: lang_in_dot_separated)
  next
    fix s assume "s \<in> {s. dot_separated P s}"
    then show "s \<in> cat_lang {s. P s} (rep_lang (cat_lang {''.''} {s. P s}))"
      by (simp add: dot_separated_in_lang)
  qed
  finally show ?thesis .
qed

lemma cat_lang_assoc: "cat_lang A (cat_lang B C) = cat_lang (cat_lang A B) C"
proof (intro set_eqI iffI)
  fix s assume "s \<in> cat_lang A (cat_lang B C)"
  then obtain a b c where "s = (a @ b) @ c" "a \<in> A" "b \<in> B" "c \<in> C"
    by (auto simp: cat_lang_def)
  then show "s \<in> cat_lang (cat_lang A B) C" unfolding cat_lang_def by blast
next
  fix s assume "s \<in> cat_lang (cat_lang A B) C"
  then obtain a b c where "s = a @ (b @ c)" "a \<in> A" "b \<in> B" "c \<in> C"
    by (auto simp: cat_lang_def)
  then show "s \<in> cat_lang A (cat_lang B C)" unfolding cat_lang_def by blast
qed

lemma version_core_iff:
  "version_core s \<longleftrightarrow>
     s \<in> cat_lang {s. numeric_identifier s} (cat_lang {''.''}
          (cat_lang {s. numeric_identifier s} (cat_lang {''.''} {s. numeric_identifier s})))"
  (is "_ \<longleftrightarrow> s \<in> ?C")
proof
  assume "version_core s"
  then obtain a b c where h: "s = a @ ''.'' @ b @ ''.'' @ c" "numeric_identifier a"
      "numeric_identifier b" "numeric_identifier c"
    by cases
  have "''.'' @ c \<in> cat_lang {''.''} {s. numeric_identifier s}"
    using h(4) unfolding cat_lang_def by blast
  then have "b @ ''.'' @ c \<in> cat_lang {s. numeric_identifier s} (cat_lang {''.''} {s. numeric_identifier s})"
    using h(3) unfolding cat_lang_def[of "{s. numeric_identifier s}"] by blast
  then have "''.'' @ b @ ''.'' @ c \<in> cat_lang {''.''}
      (cat_lang {s. numeric_identifier s} (cat_lang {''.''} {s. numeric_identifier s}))"
    unfolding cat_lang_def[of "{''.''}" "cat_lang _ _"] by blast
  then show "s \<in> ?C"
    using h(1,2) unfolding cat_lang_def[of "{s. numeric_identifier s}" "cat_lang {''.''} (cat_lang _ _)"]
    by blast
next
  assume "s \<in> ?C"
  then obtain a b c where "s = a @ ''.'' @ b @ ''.'' @ c" "numeric_identifier a"
      "numeric_identifier b" "numeric_identifier c"
    by (auto simp: cat_lang_def)
  then show "version_core s" using version_core.intros[of a b c] by simp
qed

lemma valid_semver_iff:
  "valid_semver s \<longleftrightarrow>
     s \<in> cat_lang {s. version_core s}
          (cat_lang (cat_lang {''-''} {s. dot_separated pre_release_identifier s} \<union> {[]})
                    (cat_lang {''+''} {s. dot_separated build_identifier s} \<union> {[]}))"
  (is "_ \<longleftrightarrow> s \<in> cat_lang ?C (cat_lang ?P ?B)")
proof
  assume "valid_semver s"
  then have "\<exists>c x y. s = c @ x @ y \<and> c \<in> ?C \<and> x \<in> ?P \<and> y \<in> ?B"
  proof cases
    case 1
    then have "s = s @ [] @ [] \<and> s \<in> ?C \<and> [] \<in> ?P \<and> [] \<in> ?B" by simp
    then show ?thesis by blast
  next
    case (2 c p)
    then have "''-'' @ p \<in> ?P" unfolding cat_lang_def by blast
    with 2 have "s = c @ (''-'' @ p) @ [] \<and> c \<in> ?C \<and> ''-'' @ p \<in> ?P \<and> [] \<in> ?B" by simp
    then show ?thesis by blast
  next
    case (3 c b)
    then have "''+'' @ b \<in> ?B" unfolding cat_lang_def by blast
    with 3 have "s = c @ [] @ (''+'' @ b) \<and> c \<in> ?C \<and> [] \<in> ?P \<and> ''+'' @ b \<in> ?B" by simp
    then show ?thesis by blast
  next
    case (4 c p b)
    then have "''-'' @ p \<in> ?P" "''+'' @ b \<in> ?B" unfolding cat_lang_def by blast+
    with 4 have "s = c @ (''-'' @ p) @ (''+'' @ b) \<and> c \<in> ?C \<and> ''-'' @ p \<in> ?P \<and> ''+'' @ b \<in> ?B"
      by simp
    then show ?thesis by blast
  qed
  then show "s \<in> cat_lang ?C (cat_lang ?P ?B)" unfolding cat_lang_def[of ?C] cat_lang_def[of ?P] by blast
next
  assume "s \<in> cat_lang ?C (cat_lang ?P ?B)"
  then obtain c x y where h: "s = c @ x @ y" "version_core c" "x \<in> ?P" "y \<in> ?B"
    unfolding cat_lang_def[of ?C] cat_lang_def[of ?P] by blast
  from h(3) consider (np) "x = []" | (p) p where "x = ''-'' @ p" "dot_separated pre_release_identifier p"
    by (auto simp: cat_lang_def)
  then show "valid_semver s"
  proof cases
    case np
    from h(4) consider (nb) "y = []" | (b) b where "y = ''+'' @ b" "dot_separated build_identifier b"
      by (auto simp: cat_lang_def)
    then show ?thesis
    proof cases
      case nb
      with np h show ?thesis by (simp add: valid_semver.intros(1))
    next
      case b
      with np h valid_semver.intros(3)[of c b] show ?thesis by simp
    qed
  next
    case p
    from h(4) consider (nb) "y = []" | (b) b where "y = ''+'' @ b" "dot_separated build_identifier b"
      by (auto simp: cat_lang_def)
    then show ?thesis
    proof cases
      case nb
      with p h valid_semver.intros(2)[of c p] show ?thesis by simp
    next
      case b
      with p h valid_semver.intros(4)[of c p b] show ?thesis by simp
    qed
  qed
qed

lemma lang_SEMVER_REGEX: "lang SEMVER_REGEX = {s. valid_semver s}"
proof -
  let ?N = "{s. numeric_identifier s}"
  let ?P = "cat_lang {''-''} {s. dot_separated pre_release_identifier s} \<union> {[]}"
  let ?B = "cat_lang {''+''} {s. dot_separated build_identifier s} \<union> {[]}"
  have pre: "lang (rx_dotted rx_prerelease_id) = {s. dot_separated pre_release_identifier s}"
    by (rule lang_dot_separated) (rule lang_rx_prerelease_id)
  have build: "lang (rx_dotted rx_build_id) = {s. dot_separated build_identifier s}"
    by (rule lang_dot_separated) (rule lang_rx_build_id)
  have "lang SEMVER_REGEX
      = cat_lang ?N (cat_lang {''.''} (cat_lang ?N (cat_lang {''.''} (cat_lang ?N (cat_lang ?P ?B)))))"
    unfolding SEMVER_REGEX_def Opt_def
    by (simp only: lang.simps(2,3,5,6) pre build lang_rx_numeric)
  also have "\<dots> = cat_lang (cat_lang ?N (cat_lang {''.''} (cat_lang ?N (cat_lang {''.''} ?N)))) (cat_lang ?P ?B)"
    by (simp only: cat_lang_assoc)
  also have "cat_lang ?N (cat_lang {''.''} (cat_lang ?N (cat_lang {''.''} ?N))) = {s. version_core s}"
    using version_core_iff by blast
  finally show ?thesis using valid_semver_iff by blast
qed

lemma regex_test_SEMVER_REGEX: "regex_test SEMVER_REGEX s \<longleftrightarrow> valid_semver s"
  by (simp add: regex_test_iff lang_SEMVER_REGEX)


subsection \<open>The version field\<close>

lemma andThen_Inr_iff: "andThen r f = Inr y \<longleftrightarrow> (\<exists>x. r = Inr x \<and> f x = Inr y)"
  by (cases r) (simp_all add: andThen_def)


lemma z_semver_iff:
  "z_required (z_string_regex SEMVER_REGEX) v = Inr s \<longleftrightarrow> v = Some (JStr s) \<and> valid_semver s"
  by (auto simp: z_required_def z_string_regex_def regex_test_SEMVER_REGEX
      split: option.splits json.splits if_splits)

lemma Widget_eq_iff:
  "(\<lparr> widget_version = a, widget_repo = b, widget_commit = c, widget_path = d \<rparr> = (w :: Widget)) \<longleftrightarrow>
     widget_version w = a \<and> widget_repo w = b \<and> widget_commit w = c \<and> widget_path w = d"
  by (cases w) auto

lemma WidgetManifest_eq_iff:
  "(\<lparr> manifest_name = a, manifest_version = b, manifest_authors = c, manifest_license = d,
      manifest_description = e, manifest_homepage = f \<rparr> = (m :: WidgetManifest)) \<longleftrightarrow>
     manifest_name m = a \<and> manifest_version m = b \<and> manifest_authors m = c \<and>
     manifest_license m = d \<and> manifest_description m = e \<and> manifest_homepage m = f"
  by (cases m) auto

lemma WidgetSchema_iff:
  fixes w :: Widget
  shows "WidgetSchema P (JObj ps) = Inr w \<longleftrightarrow>
     map_of ps ''version'' = Some (JStr (widget_version w)) \<and> valid_semver (widget_version w) \<and>
     z_required (z_url P) (map_of ps ''repo'') = Inr (widget_repo w) \<and>
     z_required (z_union (z_hash 40) (z_hash 64)) (map_of ps ''commit'') = Inr (widget_commit w) \<and>
     z_optional z_string (map_of ps ''path'') = Inr (widget_path w)"
  unfolding WidgetSchema_def json.case andThen_Inr_iff z_semver_iff Inr_inject Widget_eq_iff
  by auto

lemma WidgetManifestSchema_iff:
  fixes m :: WidgetManifest
  shows "WidgetManifestSchema P (JObj ps) = Inr m \<longleftrightarrow>
     z_required (z_string_max 80) (map_of ps ''name'') = Inr (manifest_name m) \<and>
     map_of ps ''version'' = Some (JStr (manifest_version m)) \<and> valid_semver (manifest_version m) \<and>
     z_required (z_array_min1 (WidgetManifestAuthorSchema P)) (map_of ps ''authors'') = Inr (manifest_authors m) \<and>
     z_required z_string (map_of ps ''license'') = Inr (manifest_license m) \<and>
     z_required (z_string_max 160) (map_of ps ''description'') = Inr (manifest_description m) \<and>
     z_required (z_url P) (map_of ps ''homepage'') = Inr (manifest_homepage m)"
  unfolding WidgetManifestSchema_def json.case andThen_Inr_iff z_semver_iff Inr_inject WidgetManifest_eq_iff
  by auto

text \<open>
  C6. A string passes \<^verbatim>\<open>SEMVER_REGEX\<close> exactly when it is a valid version of the SemVer
  grammar, so \<^verbatim>\<open>z.string().regex(SEMVER_REGEX)\<close> returns the string when it is one and fails
  otherwise. \<^verbatim>\<open>WidgetSchema\<close> and \<^verbatim>\<open>WidgetManifestSchema\<close> accept an object exactly when its
  \<open>version\<close> is such a string and each other property passes its own schema.
\<close>

theorem semver_version_validation:
  fixes w :: Widget and m :: WidgetManifest
  shows
  "(regex_test SEMVER_REGEX s \<longleftrightarrow> valid_semver s) \<and>
   z_string_regex SEMVER_REGEX (JStr s) = (if valid_semver s then Inr s else Inl ZodError) \<and>
   (WidgetSchema P (JObj ps) = Inr w \<longleftrightarrow>
      map_of ps ''version'' = Some (JStr (widget_version w)) \<and> valid_semver (widget_version w) \<and>
      z_required (z_url P) (map_of ps ''repo'') = Inr (widget_repo w) \<and>
      z_required (z_union (z_hash 40) (z_hash 64)) (map_of ps ''commit'') = Inr (widget_commit w) \<and>
      z_optional z_string (map_of ps ''path'') = Inr (widget_path w)) \<and>
   (WidgetManifestSchema P (JObj qs) = Inr m \<longleftrightarrow>
      z_required (z_string_max 80) (map_of qs ''name'') = Inr (manifest_name m) \<and>
      map_of qs ''version'' = Some (JStr (manifest_version m)) \<and> valid_semver (manifest_version m) \<and>
      z_required (z_array_min1 (WidgetManifestAuthorSchema P)) (map_of qs ''authors'') = Inr (manifest_authors m) \<and>
      z_required z_string (map_of qs ''license'') = Inr (manifest_license m) \<and>
      z_required (z_string_max 160) (map_of qs ''description'') = Inr (manifest_description m) \<and>
      z_required (z_url P) (map_of qs ''homepage'') = Inr (manifest_homepage m))"
  using WidgetSchema_iff[of P ps w] WidgetManifestSchema_iff[of P qs m]
  by (simp add: regex_test_SEMVER_REGEX z_string_regex_def)

theorem semver_version_validation_witness:
  "\<not> valid_semver ''1.2'' \<and> \<not> valid_semver ''v1.2.3'' \<and> valid_semver ''1.0.0'' \<and>
   valid_semver ''1.2.3-rc.1+build.7'' \<and>
   z_string_regex SEMVER_REGEX (JStr ''v1.2.3'') = Inl ZodError \<and>
   z_string_regex SEMVER_REGEX (JStr ''1.0.0'') = Inr ''1.0.0'' \<and>
   WidgetSchema demo_platform
     (JObj [(''version'', JStr ''1.0.0''), (''repo'', JStr ''https://example.com/r.git''),
            (''commit'', JStr ''0123456789abcdef0123456789abcdef01234567'')]) = Inr demo_widget \<and>
   (\<nexists>w :: Widget. WidgetSchema demo_platform
     (JObj [(''version'', JStr ''1.2''), (''repo'', JStr ''https://example.com/r.git''),
            (''commit'', JStr ''0123456789abcdef0123456789abcdef01234567'')]) = Inr w)"
proof -
  note grammar = semver_version_validation[THEN conjunct1]
  note field = semver_version_validation[THEN conjunct2, THEN conjunct1]
  note widget = semver_version_validation[THEN conjunct2, THEN conjunct2, THEN conjunct1]
  have a: "\<not> regex_test SEMVER_REGEX ''1.2''" by code_simp
  have b: "\<not> regex_test SEMVER_REGEX ''v1.2.3''" by code_simp
  have c: "regex_test SEMVER_REGEX ''1.0.0''" by code_simp
  have d: "regex_test SEMVER_REGEX ''1.2.3-rc.1+build.7''" by code_simp
  have 1: "\<not> valid_semver ''1.2''" using a grammar[of "''1.2''"] by simp
  have 2: "\<not> valid_semver ''v1.2.3''" using b grammar[of "''v1.2.3''"] by simp
  have 3: "valid_semver ''1.0.0''" using c grammar[of "''1.0.0''"] by simp
  have 4: "valid_semver ''1.2.3-rc.1+build.7''" using d grammar[of "''1.2.3-rc.1+build.7''"] by simp
  have 5: "z_string_regex SEMVER_REGEX (JStr ''v1.2.3'') = Inl ZodError"
    using 2 field[of "''v1.2.3''"] by simp
  have 6: "z_string_regex SEMVER_REGEX (JStr ''1.0.0'') = Inr ''1.0.0''"
    using 3 field[of "''1.0.0''"] by simp
  have 7: "WidgetSchema demo_platform
     (JObj [(''version'', JStr ''1.0.0''), (''repo'', JStr ''https://example.com/r.git''),
            (''commit'', JStr ''0123456789abcdef0123456789abcdef01234567'')]) = Inr demo_widget"
    unfolding widget using 3
    by (simp add: demo_widget_def demo_platform_def z_required_def z_optional_def z_url_def
        z_union_def z_hash_def is_hex_def)
  have 8: "\<nexists>w :: Widget. WidgetSchema demo_platform
     (JObj [(''version'', JStr ''1.2''), (''repo'', JStr ''https://example.com/r.git''),
            (''commit'', JStr ''0123456789abcdef0123456789abcdef01234567'')]) = Inr w"
    unfolding widget using 1 by auto
  from 1 2 3 4 5 6 7 8 show ?thesis by blast
qed

section \<open>Properties of the artifact pusher\<close>

lemma annotation_args_defined:
  "annotation_args annotations =
     concat (map (\<lambda>(key, value). [''--annotation'', ''org.opencontainers.image.'' @ key @ ''='' @ the value])
               (filter (\<lambda>(key, value). value \<noteq> None) annotations))"
  unfolding annotation_args_def
  by (induction annotations) (auto split: option.splits)

text \<open>
  C7, as amended. The loop over \<^verbatim>\<open>standardAnnotations\<close> adds one \<^verbatim>\<open>--annotation\<close> argument
  \<^verbatim>\<open>org.opencontainers.image.<key>=<value>\<close> for each key whose value is defined, in the order of
  the object, and none for a key whose value is undefined. For every widget and manifest the
  defined keys are authors, url, source, version, revision, vendor, licenses, title and
  description; \<open>created\<close> is undefined, so it is never set. The value is passed as it is: the
  command line is the one displayed, whatever the strings are.
\<close>

theorem push_annotation_args:
  "annotation_args annotations =
     concat (map (\<lambda>(key, value). [''--annotation'', ''org.opencontainers.image.'' @ key @ ''='' @ the value])
               (filter (\<lambda>(key, value). value \<noteq> None) annotations)) \<and>
   map fst (filter (\<lambda>(key, value). value \<noteq> None) (standardAnnotations P widget manifest)) =
     [''authors'', ''url'', ''source'', ''version'', ''revision'', ''vendor'', ''licenses'', ''title'',
      ''description''] \<and>
   map_of (standardAnnotations P widget manifest) ''created'' = Some None \<and>
   push_args P dst widget manifest dryRun =
     [''push'', ''--artifact-type'', ''application/vnd.deskulpt.widget.v1'']
     @ (if dryRun then [''--oci-layout''] else [])
     @ [''--annotation'', ''org.opencontainers.image.authors='' @ JSON_stringify P (authors_to_json (manifest_authors manifest)),
        ''--annotation'', ''org.opencontainers.image.url='' @ manifest_homepage manifest,
        ''--annotation'', ''org.opencontainers.image.source='' @ widget_repo widget @ ''@'' @ widget_commit widget,
        ''--annotation'', ''org.opencontainers.image.version='' @ widget_version widget,
        ''--annotation'', ''org.opencontainers.image.revision='' @ widget_commit widget,
        ''--annotation'', ''org.opencontainers.image.vendor=Deskulpt'',
        ''--annotation'', ''org.opencontainers.image.licenses='' @ manifest_license manifest,
        ''--annotation'', ''org.opencontainers.image.title='' @ manifest_name manifest,
        ''--annotation'', ''org.opencontainers.image.description='' @ manifest_description manifest]
     @ [dst @ '':v'' @ manifest_version manifest, ''./'', ''--no-tty'', ''--format'', ''json'']"
  by (simp add: annotation_args_defined push_args_def standardAnnotations_def)

text \<open>
  C7, as stated, fails for a manifest whose license is the empty string, which the manifest
  schema accepts: the command line carries the annotation \<^verbatim>\<open>org.opencontainers.image.licenses=\<close>,
  an annotation with an empty value.
\<close>

theorem push_empty_license_annotation:
  "push_args demo_platform ''ghcr.io/deskulpt/acme/clock'' demo_widget
     (demo_manifest \<lparr> manifest_license := [] \<rparr>) False =
   [''push'', ''--artifact-type'', ''application/vnd.deskulpt.widget.v1'',
    ''--annotation'', ''org.opencontainers.image.authors=<json>'',
    ''--annotation'', ''org.opencontainers.image.url=https://example.com'',
    ''--annotation'', ''org.opencontainers.image.source=https://example.com/r.git@0123456789abcdef0123456789abcdef01234567'',
    ''--annotation'', ''org.opencontainers.image.version=1.0.0'',
    ''--annotation'', ''org.opencontainers.image.revision=0123456789abcdef0123456789abcdef01234567'',
    ''--annotation'', ''org.opencontainers.image.vendor=Deskulpt'',
    ''--annotation'', ''org.opencontainers.image.licenses='',
    ''--annotation'', ''org.opencontainers.image.title=Clock'',
    ''--annotation'', ''org.opencontainers.image.description=A clock'',
    ''ghcr.io/deskulpt/acme/clock:v1.0.0'', ''./'', ''--no-tty'', ''--format'', ''json'']"
  by (simp add: push_args_def annotation_args_def standardAnnotations_def demo_platform_def
      demo_widget_def demo_manifest_def authors_to_json_def index_to_json_def)

section \<open>Properties of the publish loop\<close>




subsection \<open>The example platform\<close>

lemma demo_push0:
  "push demo_platform 0 src dst w m False =
     Inr \<lparr> oras_mediaType = ''application/vnd.oci.image.manifest.v1+json'',
           oras_digest = ''sha256:1111'', oras_size = 588, oras_urls = None,
           oras_annotations = Some [(''org.opencontainers.image.created'', ''2024-04-30T23:59:59Z'')],
           oras_data = None, oras_platform = None, oras_artifactType = None,
           oras_reference = ''ghcr.io/deskulpt/acme/clock:v1.0.0'', oras_referenceAsTags = [] \<rparr>"
  by (simp add: push_def demo_platform_def andThen_def parseOrasPushOutput_def json_parse_def
     OrasPushOutputSchema_def demo_push_json_def z_required_def z_optional_def z_string_def z_int_def
     z_array_def z_string_record_def)


lemma demo_platform_simps:
  "checkoutRepoAtCommit demo_platform k dir repo commit path = None"
  "now demo_platform 0 = ''2024-05-01T10:00:00.000Z''"
  "now demo_platform (Suc 0) = ''2024-05-01T10:00:01.000Z''"
  "now demo_platform 2 = ''2024-05-01T10:00:02.000Z''"
  "path_join demo_platform a b = a @ ''/'' @ b"
  "path_resolve demo_platform p = ''/work/'' @ p"
  "localeCompare demo_platform = codeunit_compare"
  by (simp_all add: demo_platform_def)

lemma demo_entry_simps:
  "plan_handle demo_entry = ''acme''" "plan_id demo_entry = ''clock''"
  "plan_widget demo_entry = demo_widget" "plan_manifest demo_entry = demo_manifest"
  "widget_path demo_widget = None"
  by (simp_all add: demo_entry_def demo_widget_def)




section \<open>Properties of the auxiliary lookups\<close>

subsection \<open>Schemas fail with validation errors only\<close>

lemma zod_andThen:
  "fails_only_with_ZodError r \<Longrightarrow> (\<And>x. fails_only_with_ZodError (f x)) \<Longrightarrow>
     fails_only_with_ZodError (andThen r f)"
  by (cases r) (simp_all add: andThen_def fails_only_with_ZodError_def)

lemma zod_Inr: "fails_only_with_ZodError (Inr x)"
  by (simp add: fails_only_with_ZodError_def)

lemma zod_Inl: "fails_only_with_ZodError (Inl ZodError)"
  by (simp add: fails_only_with_ZodError_def)

lemma zod_parse_all:
  "(\<And>x. fails_only_with_ZodError (p x)) \<Longrightarrow> fails_only_with_ZodError (parse_all p xs)"
  by (induction xs) (auto intro!: zod_andThen zod_Inr)

lemma zod_required:
  "(\<And>j. fails_only_with_ZodError (p j)) \<Longrightarrow> fails_only_with_ZodError (z_required p v)"
  by (cases v) (simp_all add: z_required_def zod_Inl)

lemma zod_optional:
  "(\<And>j. fails_only_with_ZodError (p j)) \<Longrightarrow> fails_only_with_ZodError (z_optional p v)"
  by (cases v) (auto simp: z_optional_def intro!: zod_andThen zod_Inr)

lemma zod_array:
  "(\<And>j. fails_only_with_ZodError (p j)) \<Longrightarrow> fails_only_with_ZodError (z_array p v)"
  by (cases v) (simp_all add: z_array_def zod_Inl zod_parse_all)

lemma zod_union:
  "(\<And>j. fails_only_with_ZodError (q j)) \<Longrightarrow> fails_only_with_ZodError (z_union p q v)"
  by (cases "p v") (simp_all add: z_union_def zod_Inr)

lemma zod_string: "fails_only_with_ZodError (z_string j)"
  by (cases j) (simp_all add: z_string_def fails_only_with_ZodError_def)

lemma zod_int: "fails_only_with_ZodError (z_int j)"
  by (cases j) (simp_all add: z_int_def fails_only_with_ZodError_def split: prod.splits)

lemma zod_string_regex: "fails_only_with_ZodError (z_string_regex r j)"
  by (cases j) (simp_all add: z_string_regex_def fails_only_with_ZodError_def)

lemma zod_hash: "fails_only_with_ZodError (z_hash n j)"
  by (cases j) (simp_all add: z_hash_def fails_only_with_ZodError_def)

lemma zod_url: "fails_only_with_ZodError (z_url P j)"
  by (cases j) (simp_all add: z_url_def fails_only_with_ZodError_def split: option.splits)

lemma zod_PublisherSchema: "fails_only_with_ZodError (PublisherSchema j)"
  by (cases j)
    (auto simp: PublisherSchema_def zod_Inl
      intro!: zod_andThen zod_optional zod_int zod_array zod_Inr)

lemma zod_WidgetSchema: "fails_only_with_ZodError (WidgetSchema P j)"
  by (cases j)
    (auto simp: WidgetSchema_def zod_Inl
      intro!: zod_andThen zod_optional zod_required zod_string zod_string_regex zod_url zod_union
        zod_hash zod_Inr)

lemma zod_WidgetsSchema: "fails_only_with_ZodError (WidgetsSchema P j)"
  by (cases j)
    (auto simp: WidgetsSchema_def zod_Inl
      intro!: zod_parse_all zod_andThen zod_string_regex zod_WidgetSchema zod_Inr)

text \<open>
  C10. When the helper reports that \<^verbatim>\<open>publishers/<entry>.yaml\<close> (for \<^verbatim>\<open>parseWidgets\<close>:
  \<^verbatim>\<open>widgets/<entry>.yaml\<close>) does not exist at the commit, the function returns \<^verbatim>\<open>undefined\<close> and
  raises nothing. When the file exists and can be shown, the result is the parsed and
  validated content: a syntax error when the text is not YAML, the schema's error when the
  data is malformed, which is always a validation error, and the value otherwise. The
  function returns \<^verbatim>\<open>undefined\<close> in no other case.
\<close>

theorem missing_yaml_file_is_undefined:
  "(fileExistsAtCommit P (path_join P ''publishers'' (entry @ ''.yaml'')) commit = Inr False \<longrightarrow>
      parsePublisher P entry commit = Inr None) \<and>
   (fileExistsAtCommit P (path_join P ''widgets'' (entry @ ''.yaml'')) commit = Inr False \<longrightarrow>
      parseWidgets P entry commit = Inr None) \<and>
   (fileExistsAtCommit P (path_join P ''publishers'' (entry @ ''.yaml'')) commit = Inr True \<and>
    showFileAtCommit P (path_join P ''publishers'' (entry @ ''.yaml'')) commit = Inr content \<longrightarrow>
      parsePublisher P entry commit =
        (case yaml_parse P content of
           None \<Rightarrow> Inl SyntaxError
         | Some data \<Rightarrow>
             (case PublisherSchema data of Inl e \<Rightarrow> Inl e | Inr publisher \<Rightarrow> Inr (Some publisher)))) \<and>
   (fileExistsAtCommit P (path_join P ''widgets'' (entry @ ''.yaml'')) commit = Inr True \<and>
    showFileAtCommit P (path_join P ''widgets'' (entry @ ''.yaml'')) commit = Inr content \<longrightarrow>
      parseWidgets P entry commit =
        (case yaml_parse P content of
           None \<Rightarrow> Inl SyntaxError
         | Some data \<Rightarrow>
             (case WidgetsSchema P data of Inl e \<Rightarrow> Inl e | Inr widgets \<Rightarrow> Inr (Some widgets)))) \<and>
   fails_only_with_ZodError (PublisherSchema data) \<and>
   fails_only_with_ZodError (WidgetsSchema P data) \<and>
   (parsePublisher P entry commit = Inr None \<longrightarrow>
      fileExistsAtCommit P (path_join P ''publishers'' (entry @ ''.yaml'')) commit = Inr False) \<and>
   (parseWidgets P entry commit = Inr None \<longrightarrow>
      fileExistsAtCommit P (path_join P ''widgets'' (entry @ ''.yaml'')) commit = Inr False)"
proof (intro conjI impI)
  show "fails_only_with_ZodError (PublisherSchema data)" by (rule zod_PublisherSchema)
  show "fails_only_with_ZodError (WidgetsSchema P data)" by (rule zod_WidgetsSchema)
qed (auto simp: parsePublisher_def parseWidgets_def andThen_def Let_def
      split: sum.splits option.splits if_splits)

theorem missing_yaml_file_is_undefined_witness:
  "parsePublisher demo_platform ''nobody'' ''0123456789abcdef0123456789abcdef01234567'' = Inr None \<and>
   parsePublisher demo_platform ''acme'' ''0123456789abcdef0123456789abcdef01234567'' =
     Inr (Some \<lparr> publisher_organization = None, publisher_user = Some 7,
                  publisher_extraMaintainers = None \<rparr>) \<and>
   parsePublisher demo_platform ''bad'' ''0123456789abcdef0123456789abcdef01234567'' = Inl ZodError \<and>
   parseWidgets demo_platform ''acme'' ''0123456789abcdef0123456789abcdef01234567'' = Inr None"
proof -
  let ?c = "''0123456789abcdef0123456789abcdef01234567''"
  note absent = missing_yaml_file_is_undefined[THEN conjunct1, THEN mp]
  note absent_w = missing_yaml_file_is_undefined[THEN conjunct2, THEN conjunct1, THEN mp]
  note present = missing_yaml_file_is_undefined[THEN conjunct2, THEN conjunct2, THEN conjunct1, THEN mp]
  have 1: "parsePublisher demo_platform ''nobody'' ?c = Inr None"
    by (rule absent) (simp add: demo_platform_def)
  have 2: "parseWidgets demo_platform ''acme'' ?c = Inr None"
    by (rule absent_w) (simp add: demo_platform_def)
  have "fileExistsAtCommit demo_platform (path_join demo_platform ''publishers'' (''acme'' @ ''.yaml'')) ?c = Inr True \<and>
    showFileAtCommit demo_platform (path_join demo_platform ''publishers'' (''acme'' @ ''.yaml'')) ?c = Inr ''user: 7''"
    by (simp add: demo_platform_def)
  from present[OF this]
  have 3: "parsePublisher demo_platform ''acme'' ?c =
     Inr (Some \<lparr> publisher_organization = None, publisher_user = Some 7,
                  publisher_extraMaintainers = None \<rparr>)"
    by (simp add: demo_platform_def PublisherSchema_def andThen_def z_optional_def z_int_def)
  have "fileExistsAtCommit demo_platform (path_join demo_platform ''publishers'' (''bad'' @ ''.yaml'')) ?c = Inr True \<and>
    showFileAtCommit demo_platform (path_join demo_platform ''publishers'' (''bad'' @ ''.yaml'')) ?c = Inr ''user: seven''"
    by (simp add: demo_platform_def)
  from present[OF this]
  have 4: "parsePublisher demo_platform ''bad'' ?c = Inl ZodError"
    by (simp add: demo_platform_def PublisherSchema_def andThen_def z_optional_def z_int_def)
  from 1 2 3 4 show ?thesis by blast
qed


section \<open>Properties of the plan schema\<close>

lemma PublishPlanEntry_eq_iff:
  "(\<lparr> plan_handle = a, plan_id = b, plan_widget = c, plan_manifest = d \<rparr> = (e :: PublishPlanEntry)) \<longleftrightarrow>
     plan_handle e = a \<and> plan_id e = b \<and> plan_widget e = c \<and> plan_manifest e = d"
  by (cases e) auto

lemma z_required_z_string_iff: "z_required z_string v = Inr s \<longleftrightarrow> v = Some (JStr s)"
  by (auto simp: z_required_def z_string_def split: option.splits json.splits)

lemma PublishPlanEntrySchema_iff:
  fixes e :: PublishPlanEntry
  shows "PublishPlanEntrySchema P (JObj ps) = Inr e \<longleftrightarrow>
     map_of ps ''handle'' = Some (JStr (plan_handle e)) \<and>
     map_of ps ''id'' = Some (JStr (plan_id e)) \<and>
     z_required (WidgetSchema P) (map_of ps ''widget'') = Inr (plan_widget e) \<and>
     z_required (WidgetManifestSchema P) (map_of ps ''manifest'') = Inr (plan_manifest e)"
  unfolding PublishPlanEntrySchema_def json.case andThen_Inr_iff z_required_z_string_iff Inr_inject
    PublishPlanEntry_eq_iff
  by auto

lemma parse_all_Inr_member:
  "parse_all p xs = Inr ys \<Longrightarrow> x \<in> set xs \<Longrightarrow> \<exists>y. p x = Inr y"
  by (induction xs arbitrary: ys) (auto simp: andThen_Inr_iff)

lemma WidgetsSchema_bad_key:
  assumes "(k, v) \<in> set ps" "\<not> regex_test SAFE_ID_REGEX k"
  shows "WidgetsSchema P (JObj ps) = Inl ZodError"
proof (cases "WidgetsSchema P (JObj ps)")
  case (Inl e)
  with zod_WidgetsSchema[of P "JObj ps"] show ?thesis
    by (simp add: fails_only_with_ZodError_def)
next
  case (Inr ws)
  then have "parse_all (\<lambda>(k, v).
            andThen (z_string_regex SAFE_ID_REGEX (JStr k)) (\<lambda>key.
            andThen (WidgetSchema P v) (\<lambda>w. Inr (key, w)))) ps = Inr ws"
    by (simp add: WidgetsSchema_def)
  from parse_all_Inr_member[OF this assms(1)]
  obtain key where "z_string_regex SAFE_ID_REGEX (JStr k) = Inr key"
    by (auto simp: andThen_Inr_iff)
  with assms(2) show ?thesis by (simp add: z_string_regex_def)
qed

text \<open>
  C2. The plan schema accepts an entry exactly when \<open>handle\<close> and \<open>id\<close> are strings and the
  widget and the manifest pass their schemas: it does not look at the characters of \<open>id\<close>.
  So, whenever it accepts an entry, it accepts the same entry with any other string as
  \<open>id\<close>, the empty one included, and returns it, and the schema of the plan accepts the
  plan made of it. \<^verbatim>\<open>SAFE_ID_REGEX\<close> is applied to the keys of \<^verbatim>\<open>widgets/<entry>.yaml\<close> only, where
  one key that does not match it makes the validation fail.
\<close>

theorem plan_id_is_any_string:
  fixes e e' :: PublishPlanEntry
  shows
  "(PublishPlanEntrySchema P (JObj ps) = Inr e \<longleftrightarrow>
      map_of ps ''handle'' = Some (JStr (plan_handle e)) \<and>
      map_of ps ''id'' = Some (JStr (plan_id e)) \<and>
      z_required (WidgetSchema P) (map_of ps ''widget'') = Inr (plan_widget e) \<and>
      z_required (WidgetManifestSchema P) (map_of ps ''manifest'') = Inr (plan_manifest e)) \<and>
   (PublishPlanEntrySchema P (JObj ps) = Inr e \<longrightarrow>
      PublishPlanEntrySchema P (JObj (AList.update ''id'' (JStr i) ps)) = Inr (e \<lparr> plan_id := i \<rparr>)) \<and>
   (PublishPlanEntrySchema P j = Inr e' \<longrightarrow> PublishPlanSchema P (JArr [j]) = Inr [e']) \<and>
   ((k, v) \<in> set qs \<and> \<not> regex_test SAFE_ID_REGEX k \<longrightarrow> WidgetsSchema P (JObj qs) = Inl ZodError)"
proof (intro conjI impI)
  show "PublishPlanEntrySchema P (JObj ps) = Inr e \<longleftrightarrow>
      map_of ps ''handle'' = Some (JStr (plan_handle e)) \<and>
      map_of ps ''id'' = Some (JStr (plan_id e)) \<and>
      z_required (WidgetSchema P) (map_of ps ''widget'') = Inr (plan_widget e) \<and>
      z_required (WidgetManifestSchema P) (map_of ps ''manifest'') = Inr (plan_manifest e)"
    by (rule PublishPlanEntrySchema_iff)
next
  assume "PublishPlanEntrySchema P (JObj ps) = Inr e"
  then show "PublishPlanEntrySchema P (JObj (AList.update ''id'' (JStr i) ps)) = Inr (e \<lparr> plan_id := i \<rparr>)"
    unfolding PublishPlanEntrySchema_iff by (simp add: AList.update_conv')
next
  assume "PublishPlanEntrySchema P j = Inr e'"
  then show "PublishPlanSchema P (JArr [j]) = Inr [e']"
    by (simp add: PublishPlanSchema_def z_array_def andThen_def)
next
  assume "(k, v) \<in> set qs \<and> \<not> regex_test SAFE_ID_REGEX k"
  then show "WidgetsSchema P (JObj qs) = Inl ZodError"
    using WidgetsSchema_bad_key by blast
qed

lemma demo_formats:
  "zod_url demo_platform ''https://example.com/r.git'' = Some ''https://example.com/r.git''"
  "zod_url demo_platform ''https://example.com'' = Some ''https://example.com''"
  by (simp_all add: demo_platform_def)

lemma demo_semver: "regex_test SEMVER_REGEX ''1.0.0''"
  by code_simp

lemma demo_WidgetSchema:
  "WidgetSchema demo_platform
     (JObj [(''version'', JStr ''1.0.0''), (''repo'', JStr ''https://example.com/r.git''),
            (''commit'', JStr ''0123456789abcdef0123456789abcdef01234567'')]) = Inr demo_widget"
  by (simp add: WidgetSchema_def andThen_def z_required_def z_optional_def z_string_regex_def
      demo_semver z_url_def demo_formats z_union_def z_hash_def is_hex_def demo_widget_def)

lemma demo_WidgetManifestSchema:
  "WidgetManifestSchema demo_platform
     (JObj [(''name'', JStr ''Clock''), (''version'', JStr ''1.0.0''),
            (''authors'', JArr [JStr ''A'']), (''license'', JStr ''MIT''),
            (''description'', JStr ''A clock''), (''homepage'', JStr ''https://example.com'')])
     = Inr demo_manifest"
  by (simp add: WidgetManifestSchema_def andThen_def z_required_def z_string_regex_def
      demo_semver z_url_def demo_formats z_string_max_def z_string_def z_array_min1_def z_array_def
      WidgetManifestAuthorSchema_def z_union_def demo_manifest_def)

lemma demo_PublishPlanEntrySchema:
  "PublishPlanEntrySchema demo_platform demo_entry_json = Inr demo_entry"
  unfolding demo_entry_json_def PublishPlanEntrySchema_def json.case
  by (simp add: demo_WidgetSchema demo_WidgetManifestSchema andThen_def z_required_def
      z_string_def demo_entry_def)

theorem plan_id_is_any_string_witness:
  "PublishPlanSchema demo_platform
     (JArr [JObj [(''handle'', JStr ''acme''), (''id'', JStr ''../x y''),
           (''widget'', JObj [(''version'', JStr ''1.0.0''),
                             (''repo'', JStr ''https://example.com/r.git''),
                             (''commit'', JStr ''0123456789abcdef0123456789abcdef01234567'')]),
           (''manifest'', JObj [(''name'', JStr ''Clock''), (''version'', JStr ''1.0.0''),
                               (''authors'', JArr [JStr ''A'']), (''license'', JStr ''MIT''),
                               (''description'', JStr ''A clock''),
                               (''homepage'', JStr ''https://example.com'')])]])
     = Inr [demo_entry \<lparr> plan_id := ''../x y'' \<rparr>] \<and>
   \<not> regex_test SAFE_ID_REGEX ''../x y'' \<and>
   WidgetsSchema demo_platform
     (JObj [(''../x y'', JObj [(''version'', JStr ''1.0.0''),
                              (''repo'', JStr ''https://example.com/r.git''),
                              (''commit'', JStr ''0123456789abcdef0123456789abcdef01234567'')])])
     = Inl ZodError"
proof -
  have r: "\<not> regex_test SAFE_ID_REGEX ''../x y''" by code_simp
  note replace = plan_id_is_any_string[THEN conjunct2, THEN conjunct1, THEN mp]
  note plan = plan_id_is_any_string[THEN conjunct2, THEN conjunct2, THEN conjunct1, THEN mp]
  from replace[OF demo_PublishPlanEntrySchema[unfolded demo_entry_json_def], of "''../x y''"]
  have "PublishPlanEntrySchema demo_platform
     (JObj [(''handle'', JStr ''acme''), (''id'', JStr ''../x y''),
           (''widget'', JObj [(''version'', JStr ''1.0.0''),
                             (''repo'', JStr ''https://example.com/r.git''),
                             (''commit'', JStr ''0123456789abcdef0123456789abcdef01234567'')]),
           (''manifest'', JObj [(''name'', JStr ''Clock''), (''version'', JStr ''1.0.0''),
                               (''authors'', JArr [JStr ''A'']), (''license'', JStr ''MIT''),
                               (''description'', JStr ''A clock''),
                               (''homepage'', JStr ''https://example.com'')])])
     = Inr (demo_entry \<lparr> plan_id := ''../x y'' \<rparr>)"
    by simp
  from plan[OF this] r
    plan_id_is_any_string[where k = "''../x y''" and P = demo_platform
      and v = "JObj [(''version'', JStr ''1.0.0''),
                              (''repo'', JStr ''https://example.com/r.git''),
                              (''commit'', JStr ''0123456789abcdef0123456789abcdef01234567'')]"
      and qs = "[(''../x y'', JObj [(''version'', JStr ''1.0.0''),
                              (''repo'', JStr ''https://example.com/r.git''),
                              (''commit'', JStr ''0123456789abcdef0123456789abcdef01234567'')])]",
      THEN conjunct2, THEN conjunct2, THEN conjunct2]
  show ?thesis by simp
qed

section \<open>Loading the registry index\<close>

text \<open>
  C3. \<^verbatim>\<open>parseRegistryIndex\<close> reads \<^verbatim>\<open>index.json\<close> with \<^verbatim>\<open>fs.readFile\<close> and has no default: when the
  file is absent it fails with \<open>ENOENT\<close>, and the script, which does not catch the error,
  never ends with a written index.
\<close>

theorem absent_index_file_fails:
  "(fs (path_join P dir ''index.json'') = None \<longrightarrow>
      parseRegistryIndex P fs dir = Inl (ENOENT (path_join P dir ''index.json''))) \<and>
   (fs (path_join P (the (env P ''REGISTRY_DIR'')) ''index.json'') = None \<longrightarrow>
      (\<forall>fs'. publish P fs \<noteq> Inr fs'))"
proof (intro conjI impI allI)
  assume "fs (path_join P dir ''index.json'') = None"
  then show "parseRegistryIndex P fs dir = Inl (ENOENT (path_join P dir ''index.json''))"
    by (simp add: parseRegistryIndex_def readFile_def andThen_def)
next
  fix fs'
  assume a: "fs (path_join P (the (env P ''REGISTRY_DIR'')) ''index.json'') = None"
  show "publish P fs \<noteq> Inr fs'"
  proof
    assume "publish P fs = Inr fs'"
    then obtain registryIndex where
      "parseRegistryIndex P fs (the (env P ''REGISTRY_DIR'')) = Inr registryIndex"
      by (auto simp: publish_def Let_def andThen_Inr_iff split: option.splits)
    with a show False
      by (simp add: parseRegistryIndex_def readFile_def andThen_def)
  qed
qed

lemma demo_env:
  "env demo_platform ''GHCR_REPO_PREFIX'' = Some ''ghcr.io/deskulpt''"
  "env demo_platform ''PUBLISH_PLAN_PATH'' = Some ''plan.jsonl''"
  "env demo_platform ''REGISTRY_DIR'' = Some ''registry''"
  by (simp_all add: demo_platform_def)

lemma demo_parsePublishPlan:
  "parsePublishPlan demo_platform [''plan.jsonl'' \<mapsto> ''<entry acme/clock>''] ''plan.jsonl''
     = Inr [demo_entry]"
proof -
  have l: "split_lines ''<entry acme/clock>'' = [''<entry acme/clock>'']"
    by simp
  have t: "trim ''<entry acme/clock>'' = ''<entry acme/clock>''"
    by (simp add: trim_def is_space_def)
  have j: "json_parse demo_platform ''<entry acme/clock>'' = Inr demo_entry_json"
    by (simp add: json_parse_def demo_platform_def)
  show ?thesis
    by (simp add: parsePublishPlan_def readFile_def andThen_def l t j PublishPlanSchema_def
        z_array_def demo_PublishPlanEntrySchema del: split_lines.simps)
qed

theorem absent_index_file_fails_witness:
  "parseRegistryIndex demo_platform [''plan.jsonl'' \<mapsto> ''<entry acme/clock>''] ''registry''
     = Inl (ENOENT ''registry/index.json'') \<and>
   parsePublishPlan demo_platform [''plan.jsonl'' \<mapsto> ''<entry acme/clock>''] ''plan.jsonl''
     = Inr [demo_entry] \<and>
   publish demo_platform [''plan.jsonl'' \<mapsto> ''<entry acme/clock>''] = Inl (ENOENT ''registry/index.json'')"
proof -
  let ?fs = "[''plan.jsonl'' \<mapsto> ''<entry acme/clock>'']"
  have a: "?fs (path_join demo_platform ''registry'' ''index.json'') = None"
    by (simp add: demo_platform_def)
  from absent_index_file_fails[where P = demo_platform and fs = ?fs and dir = "''registry''",
      THEN conjunct1, THEN mp, OF a]
  have 1: "parseRegistryIndex demo_platform ?fs ''registry'' = Inl (ENOENT ''registry/index.json'')"
    by (simp add: demo_platform_def)
  have l: "publish_entry demo_platform ''/work/temp'' ''ghcr.io/deskulpt'' 0 demo_entry
      = Inr (registry_update demo_entry ''2024-04-30T23:59:59Z'' ''sha256:1111'')"
    by (simp add: publish_entry_def demo_push0 andThen_def Let_def
      select_publishedAt_def createdAt_def demo_platform_simps demo_entry_simps)
  have 2: "publish demo_platform ?fs = Inl (ENOENT ''registry/index.json'')"
    by (simp add: publish_def demo_env demo_parsePublishPlan andThen_def Let_def
        demo_platform_simps l 1)
  from 1 2 demo_parsePublishPlan show ?thesis by blast
qed


section \<open>Writing and reading back the registry index\<close>














end
